theory Spec2Isabelle
  imports
    Complex_Main
    "HOL-Library.Char_ord"
    "HOL-Library.List_Lexorder"
    "HOL-Library.Multiset"
    "HOL-Library.Option_ord"
    "HOL-Library.Product_Lexorder"
begin

section \<open>Numbers, time and tables\<close>

text \<open>
  Floating-point columns are modelled over the reals. A column value that pandas may hold
  as NaN is a \<open>real option\<close>, \<open>None\<close> standing for NaN (and for Python's \<open>None\<close> where the
  source writes it). The staff productivity column can also hold an infinity (a division
  by a zero shift duration), so it has its own type \<open>pyfloat\<close>.
\<close>

datatype pyfloat = Fin real | PInf | NInf | NaN

text \<open>Python's \<open>round(x, n)\<close> and pandas' \<open>.round(n)\<close>: to the nearest multiple of
  \<open>10\<^sup>-\<^sup>n\<close>, a tie going to the even neighbour.\<close>

definition round_half_even :: "real \<Rightarrow> int" where
  "round_half_even x =
     (let f = \<lfloor>x\<rfloor>; d = x - of_int f
      in if d < 1 / 2 then f
         else if 1 / 2 < d then f + 1
         else if even f then f else f + 1)"

definition round_ndigits :: "real \<Rightarrow> nat \<Rightarrow> real" where
  "round_ndigits x n = of_int (round_half_even (x * 10 ^ n)) / 10 ^ n"

definition round_opt :: "real option \<Rightarrow> nat \<Rightarrow> real option" where
  "round_opt x n = map_option (\<lambda>v. round_ndigits v n) x"

text \<open>Operations on the productivity column: a division whose divisor may be zero
  (IEEE: a positive numerator gives infinity, a zero numerator NaN), addition, and pandas'
  \<open>mean\<close>, which skips NaN entries.\<close>

definition fdiv :: "real \<Rightarrow> real \<Rightarrow> pyfloat" where
  "fdiv a b =
     (if b \<noteq> 0 then Fin (a / b)
      else if 0 < a then PInf else if a < 0 then NInf else NaN)"

fun fadd :: "pyfloat \<Rightarrow> pyfloat \<Rightarrow> pyfloat" where
  "fadd NaN _ = NaN"
| "fadd _ NaN = NaN"
| "fadd (Fin a) (Fin b) = Fin (a + b)"
| "fadd PInf NInf = NaN"
| "fadd NInf PInf = NaN"
| "fadd PInf _ = PInf"
| "fadd _ PInf = PInf"
| "fadd NInf _ = NInf"
| "fadd _ NInf = NInf"

fun fdiv_count :: "pyfloat \<Rightarrow> nat \<Rightarrow> pyfloat" where
  "fdiv_count (Fin s) n = Fin (s / real n)"
| "fdiv_count x n = x"

definition fmean :: "pyfloat list \<Rightarrow> pyfloat" where
  "fmean xs =
     (let ys = filter (\<lambda>x. x \<noteq> NaN) xs
      in if ys = [] then NaN else fdiv_count (foldl fadd (Fin 0) ys) (length ys))"

fun fround :: "pyfloat \<Rightarrow> nat \<Rightarrow> pyfloat" where
  "fround (Fin x) n = Fin (round_ndigits x n)"
| "fround x n = x"

fun ge_pyfloat :: "pyfloat \<Rightarrow> real \<Rightarrow> bool" where
  "ge_pyfloat (Fin x) t = (t \<le> x)"
| "ge_pyfloat PInf t = True"
| "ge_pyfloat NInf t = False"
| "ge_pyfloat NaN t = False"

text \<open>Sort key of a productivity value: NaN below everything, so that a descending sort
  puts it last, as pandas does.\<close>

fun pyfloat_key :: "pyfloat \<Rightarrow> nat \<times> real" where
  "pyfloat_key NaN = (0, 0)"
| "pyfloat_key NInf = (1, 0)"
| "pyfloat_key (Fin x) = (2, x)"
| "pyfloat_key PInf = (3, 0)"

text \<open>Comparisons on a value that may be NaN (or NaT): every such comparison is false.\<close>

definition between_nan :: "'a::linorder \<Rightarrow> 'a option \<Rightarrow> 'a \<Rightarrow> bool" where
  "between_nan lo x hi = (case x of None \<Rightarrow> False | Some v \<Rightarrow> lo \<le> v \<and> v \<le> hi)"

definition le_nan :: "'a::linorder option \<Rightarrow> 'a \<Rightarrow> bool" where
  "le_nan x hi = (case x of None \<Rightarrow> False | Some v \<Rightarrow> v \<le> hi)"

definition lt_nan :: "'a::linorder option \<Rightarrow> 'a \<Rightarrow> bool" where
  "lt_nan x hi = (case x of None \<Rightarrow> False | Some v \<Rightarrow> v < hi)"

definition gt_nan :: "'a::linorder option \<Rightarrow> 'a \<Rightarrow> bool" where
  "gt_nan x lo = (case x of None \<Rightarrow> False | Some v \<Rightarrow> lo < v)"

definition ge_nan :: "'a::linorder option \<Rightarrow> 'a \<Rightarrow> bool" where
  "ge_nan x lo = (case x of None \<Rightarrow> False | Some v \<Rightarrow> lo \<le> v)"

text \<open>
  A timestamp is a number of seconds since the epoch. \<open>dt_date\<close> and \<open>dt_hour\<close> are pandas'
  \<open>.dt.date\<close> (as a day number) and \<open>.dt.hour\<close>; \<open>timedelta_days\<close> is \<open>timedelta(days=d)\<close>
  and \<open>td_days\<close> the \<open>.days\<close> component of a difference of two timestamps (rounded down).
  The wall clock read by \<open>datetime.now()\<close> is the explicit argument \<open>now\<close> of every
  analysis method; a method that reads the clock twice is modelled with one reading.
\<close>

definition dt_date :: "int \<Rightarrow> int" where
  "dt_date ts = ts div 86400"

definition dt_hour :: "int \<Rightarrow> int" where
  "dt_hour ts = (ts mod 86400) div 3600"

definition timedelta_days :: "int \<Rightarrow> int" where
  "timedelta_days d = d * 86400"

definition td_days :: "int \<Rightarrow> int" where
  "td_days delta = delta div 86400"

text \<open>\<open>days = days or default\<close>: a missing argument and the argument 0 both give the default.\<close>

definition days_or :: "int option \<Rightarrow> int \<Rightarrow> int" where
  "days_or days dflt = (case days of None \<Rightarrow> dflt | Some d \<Rightarrow> if d = 0 then dflt else d)"

text \<open>
  A DataFrame is a list of rows. \<open>groupby\<close> yields the groups in ascending key order, each
  with its rows in table order. The aggregations return \<open>None\<close> (NaN) where pandas does.
  A mapping produced by \<open>to_dict\<close> is an association list in the order of the series it
  comes from; \<open>value_counts\<close> lists its keys in ascending order (Python compares such
  mappings regardless of order). pandas' default sort is not stable; the model keeps ties
  in table order, which is also the order \<open>nlargest\<close> promises.
\<close>

definition groupby :: "('a \<Rightarrow> 'k::linorder) \<Rightarrow> 'a list \<Rightarrow> ('k \<times> 'a list) list" where
  "groupby key xs = map (\<lambda>k. (k, filter (\<lambda>x. key x = k) xs)) (sort (remdups (map key xs)))"

definition mean :: "real list \<Rightarrow> real option" where
  "mean xs = (if xs = [] then None else Some (sum_list xs / real (length xs)))"

definition std :: "real list \<Rightarrow> real option" where
  "std xs =
     (if length xs < 2 then None
      else let m = sum_list xs / real (length xs)
           in Some (sqrt (sum_list (map (\<lambda>x. (x - m)\<^sup>2) xs) / real (length xs - 1))))"

definition agg_min :: "'a::linorder list \<Rightarrow> 'a option" where
  "agg_min xs = (if xs = [] then None else Some (Min (set xs)))"

definition agg_max :: "'a::linorder list \<Rightarrow> 'a option" where
  "agg_max xs = (if xs = [] then None else Some (Max (set xs)))"

definition nunique :: "'a list \<Rightarrow> nat" where
  "nunique xs = length (remdups xs)"

definition value_counts :: "'a::linorder list \<Rightarrow> ('a \<times> nat) list" where
  "value_counts xs = map (\<lambda>k. (k, count_list xs k)) (sort (remdups xs))"

definition sort_values_desc :: "('a \<Rightarrow> 'k::linorder) \<Rightarrow> 'a list \<Rightarrow> 'a list" where
  "sort_values_desc key xs = rev (sort_key key (rev xs))"

definition nlargest :: "nat \<Rightarrow> ('a \<Rightarrow> 'k::linorder) \<Rightarrow> 'a list \<Rightarrow> 'a list" where
  "nlargest n key xs = take n (sort_values_desc key xs)"

definition tail :: "nat \<Rightarrow> 'a list \<Rightarrow> 'a list" where
  "tail n xs = drop (length xs - n) xs"

text \<open>Pearson correlation of two columns of equal length: NaN with fewer than two rows or
  when one column is constant.\<close>

definition corr :: "real list \<Rightarrow> real list \<Rightarrow> real option" where
  "corr xs ys =
     (if length xs < 2 then None
      else let mx = sum_list xs / real (length xs);
               my = sum_list ys / real (length ys);
               sxy = sum_list (map (\<lambda>(x, y). (x - mx) * (y - my)) (zip xs ys));
               sxx = sum_list (map (\<lambda>x. (x - mx)\<^sup>2) xs);
               syy = sum_list (map (\<lambda>y. (y - my)\<^sup>2) ys)
           in if sxx = 0 \<or> syy = 0 then None else Some (sxy / (sqrt sxx * sqrt syy)))"

text \<open>The input tables, with the columns the transformer gives them.\<close>

record activity =
  act_pet_id :: string
  act_pet_name :: string
  act_activity_type :: string
  act_timestamp :: int
  act_duration_minutes :: real
  act_staff_id :: string
  act_notes :: "string option"
  act_date :: int
  act_hour :: int

record env_reading =
  env_timestamp :: int
  env_kennel_section :: string
  env_temperature_f :: real
  env_humidity_percent :: real
  env_noise_level_db :: real
  env_date :: int
  env_hour :: int
  env_temp_comfort :: string
  env_humidity_comfort :: string
  env_noise_comfort :: string

record raw_staff_log =
  raw_staff_id :: string
  raw_staff_name :: string
  raw_shift_start :: int
  raw_shift_end :: int
  raw_tasks_completed :: "real option"

record staff_log =
  stf_staff_id :: string
  stf_staff_name :: string
  stf_shift_start :: int
  stf_shift_end :: int
  stf_tasks_completed :: real
  stf_shift_duration_hours :: real
  stf_shift_type :: string
  stf_tasks_per_hour :: pyfloat

section \<open>Configuration (dashboard/analytics/config.py)\<close>

definition ANALYSIS_WINDOWS_short_term :: int where "ANALYSIS_WINDOWS_short_term = 7"
definition ANALYSIS_WINDOWS_medium_term :: int where "ANALYSIS_WINDOWS_medium_term = 30"
definition ANALYSIS_WINDOWS_long_term :: int where "ANALYSIS_WINDOWS_long_term = 90"

definition min_activity_minutes_per_day :: real where "min_activity_minutes_per_day = 60"
definition max_activity_minutes_per_day :: real where "max_activity_minutes_per_day = 180"
definition min_feeding_times_per_day :: real where "min_feeding_times_per_day = 2"
definition max_feeding_times_per_day :: real where "max_feeding_times_per_day = 4"

definition temperature_optimal_min :: real where "temperature_optimal_min = 68"
definition temperature_optimal_max :: real where "temperature_optimal_max = 78"
definition temperature_alert_min :: real where "temperature_alert_min = 60"
definition temperature_alert_max :: real where "temperature_alert_max = 85"
definition humidity_optimal_min :: real where "humidity_optimal_min = 40"
definition humidity_optimal_max :: real where "humidity_optimal_max = 60"
definition humidity_alert_min :: real where "humidity_alert_min = 30"
definition humidity_alert_max :: real where "humidity_alert_max = 80"
definition noise_normal_max :: real where "noise_normal_max = 40"
definition noise_alert_threshold :: real where "noise_alert_threshold = 45"
definition noise_critical_threshold :: real where "noise_critical_threshold = 50"

definition min_tasks_per_hour :: real where "min_tasks_per_hour = 8 / 10"
definition target_tasks_per_hour :: real where "target_tasks_per_hour = 12 / 10"
definition max_tasks_per_hour :: real where "max_tasks_per_hour = 2"
definition target_days_between :: int where "target_days_between = 7"
definition alert_days_overdue :: int where "alert_days_overdue = 10"


section \<open>Transformer (etl/transform.py)\<close>

definition categorize_shift :: "int \<Rightarrow> string" where
  "categorize_shift h =
     (if 5 \<le> h \<and> h < 14 then ''morning''
      else if 14 \<le> h \<and> h < 22 then ''afternoon''
      else ''night'')"

text \<open>
  \<open>transform_staff_logs\<close>: the shift duration in hours and the shift type are computed for
  every row; \<open>tasks_completed\<close> is coerced to a number (\<open>None\<close> where the coercion gives NaN)
  and the rows with \<open>tasks_completed >= 0\<close> are kept, which drops NaN; then
  \<open>tasks_per_hour\<close> is the quotient, whatever the duration is.
\<close>

definition transform_staff_row :: "raw_staff_log \<Rightarrow> staff_log option" where
  "transform_staff_row r =
     (let shift_duration_hours =
            real_of_int (raw_shift_end r - raw_shift_start r) / 3600;
          shift_type = categorize_shift (dt_hour (raw_shift_start r))
      in case raw_tasks_completed r of
           None \<Rightarrow> None
         | Some tasks \<Rightarrow>
             if 0 \<le> tasks
             then Some \<lparr>stf_staff_id = raw_staff_id r,
                        stf_staff_name = raw_staff_name r,
                        stf_shift_start = raw_shift_start r,
                        stf_shift_end = raw_shift_end r,
                        stf_tasks_completed = tasks,
                        stf_shift_duration_hours = shift_duration_hours,
                        stf_shift_type = shift_type,
                        stf_tasks_per_hour = fdiv tasks shift_duration_hours\<rparr>
             else None)"

definition transform_staff_logs :: "raw_staff_log list \<Rightarrow> staff_log list" where
  "transform_staff_logs staff_df =
     (if staff_df = [] then [] else List.map_filter transform_staff_row staff_df)"

record daily_summary =
  ds_date :: int
  total_activities :: nat
  total_activity_minutes :: real
  unique_pets :: nat
  ds_avg_temperature :: "real option"
  ds_avg_humidity :: "real option"
  ds_avg_noise :: "real option"
  staff_shifts :: nat
  total_tasks :: real

text \<open>
  \<open>create_daily_summary\<close>: one row for each date of \<open>sorted(dates)\<close>, where \<open>dates\<close> is the
  set of the activity dates, the environment dates and the dates of the shift starts.
  An empty table contributes no date and no row, which is what the source's
  \<open>if not df.empty\<close> tests amount to.
\<close>

definition summary_dates :: "activity list \<Rightarrow> env_reading list \<Rightarrow> staff_log list \<Rightarrow> int list" where
  "summary_dates pet_df env_df staff_df =
     sort (remdups (map act_date pet_df @ map env_date env_df
                    @ map (\<lambda>s. dt_date (stf_shift_start s)) staff_df))"

definition summary_row :: "activity list \<Rightarrow> env_reading list \<Rightarrow> staff_log list \<Rightarrow> int \<Rightarrow> daily_summary" where
  "summary_row pet_df env_df staff_df date =
     (let day_activities = filter (\<lambda>a. act_date a = date) pet_df;
          day_env = filter (\<lambda>e. env_date e = date) env_df;
          day_staff = filter (\<lambda>s. dt_date (stf_shift_start s) = date) staff_df
      in \<lparr>ds_date = date,
          total_activities = length day_activities,
          total_activity_minutes =
            (if day_activities \<noteq> [] then sum_list (map act_duration_minutes day_activities)
             else 0),
          unique_pets =
            (if day_activities \<noteq> [] then nunique (map act_pet_id day_activities) else 0),
          ds_avg_temperature =
            (if day_env \<noteq> [] then mean (map env_temperature_f day_env) else None),
          ds_avg_humidity =
            (if day_env \<noteq> [] then mean (map env_humidity_percent day_env) else None),
          ds_avg_noise =
            (if day_env \<noteq> [] then mean (map env_noise_level_db day_env) else None),
          staff_shifts = length day_staff,
          total_tasks =
            (if day_staff \<noteq> [] then sum_list (map stf_tasks_completed day_staff) else 0)\<rparr>)"

definition create_daily_summary :: "activity list \<Rightarrow> env_reading list \<Rightarrow> staff_log list \<Rightarrow> daily_summary list" where
  "create_daily_summary pet_df env_df staff_df =
     map (summary_row pet_df env_df staff_df) (summary_dates pet_df env_df staff_df)"

section \<open>PetWellnessAnalyzer (dashboard/analytics/pet_wellness.py)\<close>

definition categorize_activity_level :: "real option \<Rightarrow> string" where
  "categorize_activity_level avg_minutes =
     (if lt_nan avg_minutes min_activity_minutes_per_day then ''low''
      else if gt_nan avg_minutes max_activity_minutes_per_day then ''high''
      else ''optimal'')"

definition categorize_feeding_frequency :: "real option \<Rightarrow> string" where
  "categorize_feeding_frequency avg_feedings =
     (if lt_nan avg_feedings min_feeding_times_per_day then ''infrequent''
      else if gt_nan avg_feedings max_feeding_times_per_day then ''excessive''
      else ''normal'')"

record pet_average =
  pa_pet_id :: string
  pa_pet_name :: string
  avg_daily_minutes :: "real option"
  avg_daily_activities :: "real option"
  activity_status :: string

text \<open>The rows of \<open>daily_activity\<close>: the key (pet id, pet name, date), the summed duration
  and the number of activities of that pet on that date.\<close>

definition daily_activity :: "activity list \<Rightarrow> ((string \<times> string \<times> int) \<times> real \<times> nat) list" where
  "daily_activity recent_df =
     map (\<lambda>(k, rows). (k, sum_list (map act_duration_minutes rows), length rows))
       (groupby (\<lambda>a. (act_pet_id a, act_pet_name a, act_date a)) recent_df)"

definition pet_averages :: "((string \<times> string \<times> int) \<times> real \<times> nat) list \<Rightarrow> pet_average list" where
  "pet_averages daily =
     map (\<lambda>(k, rows).
            let avg_minutes = round_opt (mean (map (\<lambda>(_, minutes, _). minutes) rows)) 2
            in \<lparr>pa_pet_id = fst k, pa_pet_name = snd k,
                avg_daily_minutes = avg_minutes,
                avg_daily_activities =
                  round_opt (mean (map (\<lambda>(_, _, n). real n) rows)) 2,
                activity_status = categorize_activity_level avg_minutes\<rparr>)
       (groupby (\<lambda>((pet_id, pet_name, _), _). (pet_id, pet_name)) daily)"

definition get_avg_activity_time_per_pet :: "int \<Rightarrow> activity list \<Rightarrow> int option \<Rightarrow> pet_average list" where
  "get_avg_activity_time_per_pet now df days =
     (let days = days_or days ANALYSIS_WINDOWS_medium_term;
          cutoff_date = now - timedelta_days days;
          recent_df = filter (\<lambda>a. cutoff_date \<le> act_timestamp a) df
      in sort_values_desc avg_daily_minutes (pet_averages (daily_activity recent_df)))"


record feeding_row =
  fr_pet_id :: string
  fr_pet_name :: string
  avg_feedings_per_day :: "real option"
  feeding_consistency :: "real option"
  min_daily :: "nat option"
  max_daily :: "nat option"
  feeding_status :: string

record feeding_analysis =
  total_pets_analyzed :: nat
  avg_feedings_across_kennel :: "real option"
  pets_with_irregular_feeding :: nat
  fa_detailed_per_pet :: "feeding_row list"

definition get_feeding_frequency_analysis :: "int \<Rightarrow> activity list \<Rightarrow> int option \<Rightarrow> feeding_analysis" where
  "get_feeding_frequency_analysis now df days =
     (let days = days_or days ANALYSIS_WINDOWS_medium_term;
          cutoff_date = now - timedelta_days days;
          feeding_df =
            filter (\<lambda>a. act_activity_type a = ''feeding'' \<and> cutoff_date \<le> act_timestamp a) df;
          daily_feeding =
            map (\<lambda>(k, rows). (k, length rows))
              (groupby (\<lambda>a. (act_pet_id a, act_pet_name a, act_date a)) feeding_df);
          avg_feedings =
            map (\<lambda>(k, rows).
                   let feedings_per_day = map snd rows;
                       avg = round_opt (mean (map real feedings_per_day)) 2
                   in \<lparr>fr_pet_id = fst k, fr_pet_name = snd k,
                       avg_feedings_per_day = avg,
                       feeding_consistency = round_opt (std (map real feedings_per_day)) 2,
                       min_daily = agg_min feedings_per_day,
                       max_daily = agg_max feedings_per_day,
                       feeding_status = categorize_feeding_frequency avg\<rparr>)
              (groupby (\<lambda>((pet_id, pet_name, _), _). (pet_id, pet_name)) daily_feeding)
      in \<lparr>total_pets_analyzed = length avg_feedings,
          avg_feedings_across_kennel =
            mean (List.map_filter avg_feedings_per_day avg_feedings),
          pets_with_irregular_feeding =
            length (filter (\<lambda>r. feeding_status r \<noteq> ''normal'') avg_feedings),
          fa_detailed_per_pet = avg_feedings\<rparr>)"

text \<open>\<open>str.contains('weight|Weight', na=False, case=False)\<close>: the notes, lower-cased
  (ASCII letters), contain \<open>weight\<close>; missing notes do not match.\<close>

definition lower_char :: "char \<Rightarrow> char" where
  "lower_char c =
     (if CHR ''A'' \<le> c \<and> c \<le> CHR ''Z'' then char_of (of_char c + (32::nat)) else c)"

definition str_lower :: "string \<Rightarrow> string" where
  "str_lower s = map lower_char s"

fun str_contains :: "string \<Rightarrow> string \<Rightarrow> bool" where
  "str_contains pat [] = (pat = [])"
| "str_contains pat (c # cs) = (take (length pat) (c # cs) = pat \<or> str_contains pat cs)"

definition mentions_weight :: "string option \<Rightarrow> bool" where
  "mentions_weight notes =
     (case notes of None \<Rightarrow> False | Some s \<Rightarrow> str_contains ''weight'' (str_lower s))"

record weight_check =
  wc_pet_id :: string
  wc_pet_name :: string
  total_weight_checks :: nat
  first_check :: "int option"
  latest_check :: "int option"
  latest_notes :: "string option"
  days_between_checks :: "int option"

record weight_analysis =
  pets_with_weight_monitoring :: nat
  wa_total_weight_checks :: nat
  avg_checks_per_pet :: "real option"
  wa_detailed_per_pet :: "weight_check list"
  recent_weight_activities :: "activity list"

definition first_notna :: "'a option list \<Rightarrow> 'a option" where
  "first_notna xs = (case List.map_filter (\<lambda>x. x) xs of [] \<Rightarrow> None | x # _ \<Rightarrow> Some x)"

definition days_between :: "int option \<Rightarrow> int option \<Rightarrow> int option" where
  "days_between first latest =
     (case (first, latest) of
        (Some f, Some l) \<Rightarrow> Some (td_days (l - f))
      | _ \<Rightarrow> None)"

definition get_weight_trend_analysis :: "int \<Rightarrow> activity list \<Rightarrow> int option \<Rightarrow> weight_analysis" where
  "get_weight_trend_analysis now df days =
     (let days = days_or days ANALYSIS_WINDOWS_medium_term;
          cutoff_date = now - timedelta_days days;
          medical_df =
            filter (\<lambda>a. act_activity_type a = ''medical'' \<and> cutoff_date \<le> act_timestamp a) df;
          weight_mentions = filter (\<lambda>a. mentions_weight (act_notes a)) medical_df;
          weight_checks_per_pet =
            map (\<lambda>(k, rows).
                   let first = agg_min (map act_timestamp rows);
                       latest = agg_max (map act_timestamp rows)
                   in \<lparr>wc_pet_id = fst k, wc_pet_name = snd k,
                       total_weight_checks = length rows,
                       first_check = first,
                       latest_check = latest,
                       latest_notes = first_notna (map act_notes rows),
                       days_between_checks = days_between first latest\<rparr>)
              (groupby (\<lambda>a. (act_pet_id a, act_pet_name a)) weight_mentions)
      in \<lparr>pets_with_weight_monitoring = length weight_checks_per_pet,
          wa_total_weight_checks = length weight_mentions,
          avg_checks_per_pet =
            (if weight_checks_per_pet \<noteq> []
             then mean (map (\<lambda>r. real (total_weight_checks r)) weight_checks_per_pet)
             else Some 0),
          wa_detailed_per_pet = weight_checks_per_pet,
          recent_weight_activities =
            take 10 (sort_values_desc act_timestamp weight_mentions)\<rparr>)"

record wellness_summary =
  total_pets :: nat
  activity_wellness_rate :: real
  feeding_wellness_rate :: real
  ws_pets_needing_attention :: "pet_average list"
  activity_details :: "pet_average list"
  feeding_details :: feeding_analysis
  weight_monitoring :: weight_analysis

definition get_pet_wellness_summary :: "int \<Rightarrow> activity list \<Rightarrow> wellness_summary" where
  "get_pet_wellness_summary now df =
     (let activity_analysis = get_avg_activity_time_per_pet now df None;
          feeding_analysis = get_feeding_frequency_analysis now df None;
          weight_analysis = get_weight_trend_analysis now df None;
          total_pets = length activity_analysis;
          active_pets =
            length (filter (\<lambda>r. activity_status r = ''optimal'') activity_analysis);
          well_fed_pets =
            length (filter (\<lambda>r. feeding_status r = ''normal'')
                      (fa_detailed_per_pet feeding_analysis))
      in \<lparr>total_pets = total_pets,
          activity_wellness_rate =
            (if 0 < total_pets then real active_pets / real total_pets * 100 else 0),
          feeding_wellness_rate =
            (if 0 < total_pets then real well_fed_pets / real total_pets * 100 else 0),
          ws_pets_needing_attention =
            filter (\<lambda>r. activity_status r \<in> set [''low'', ''high'']) activity_analysis,
          activity_details = activity_analysis,
          feeding_details = feeding_analysis,
          weight_monitoring = weight_analysis\<rparr>)"

section \<open>EnvironmentalAnalyzer (dashboard/analytics/environmental.py)\<close>

text \<open>The \<open>overall\<close> mapping built by \<open>get_temperature_humidity_averages\<close>. The means and
  standard deviations are NaN when the window holds too few readings.\<close>

record overall_stats =
  avg_temperature :: "real option"
  avg_humidity :: "real option"
  avg_noise :: "real option"
  temp_std :: "real option"
  humidity_std :: "real option"
  noise_std :: "real option"
  total_readings :: nat
  days_analyzed :: int

record stats4 =
  c_mean :: "real option"
  c_std :: "real option"
  c_min :: "real option"
  c_max :: "real option"

record section_stats =
  ss_kennel_section :: string
  ss_temperature_f :: stats4
  ss_humidity_percent :: stats4
  ss_noise_level_db :: stats4
  temp_comfort_rating :: string
  humidity_comfort_rating :: string

record comfort_dist =
  temperature_comfort_distribution :: "(string \<times> nat) list"
  humidity_comfort_distribution :: "(string \<times> nat) list"
  noise_level_distribution :: "(string \<times> nat) list"

record temp_humidity_result =
  overall :: overall_stats
  by_section :: "section_stats list"
  comfort_summary :: comfort_dist

definition rate_temperature_comfort :: "real option \<Rightarrow> string" where
  "rate_temperature_comfort temp =
     (if between_nan temperature_optimal_min temp temperature_optimal_max then ''optimal''
      else if between_nan temperature_alert_min temp temperature_alert_max then ''acceptable''
      else ''poor'')"

definition rate_humidity_comfort :: "real option \<Rightarrow> string" where
  "rate_humidity_comfort humidity =
     (if between_nan humidity_optimal_min humidity humidity_optimal_max then ''optimal''
      else if between_nan humidity_alert_min humidity humidity_alert_max then ''acceptable''
      else ''poor'')"

definition categorize_noise_level :: "real option \<Rightarrow> string" where
  "categorize_noise_level noise =
     (if le_nan noise noise_normal_max then ''normal''
      else if le_nan noise noise_alert_threshold then ''elevated''
      else if le_nan noise noise_critical_threshold then ''high''
      else ''critical'')"

definition categorize_temperature_range :: "real option \<Rightarrow> string" where
  "categorize_temperature_range temp =
     (if lt_nan temp 65 then ''cold''
      else if lt_nan temp 72 then ''cool''
      else if le_nan temp 78 then ''optimal''
      else if le_nan temp 82 then ''warm''
      else ''hot'')"

text \<open>\<open>_get_comfort_summary\<close>: the environment table carries the transformer's comfort
  columns, so the distributions are the value counts of those columns (the source's other
  branch, for a table without them, rates each reading instead).\<close>

definition get_comfort_summary :: "env_reading list \<Rightarrow> comfort_dist" where
  "get_comfort_summary df =
     \<lparr>temperature_comfort_distribution = value_counts (map env_temp_comfort df),
      humidity_comfort_distribution = value_counts (map env_humidity_comfort df),
      noise_level_distribution = value_counts (map env_noise_comfort df)\<rparr>"

definition agg4 :: "real list \<Rightarrow> stats4" where
  "agg4 xs =
     \<lparr>c_mean = round_opt (mean xs) 2, c_std = round_opt (std xs) 2,
      c_min = round_opt (agg_min xs) 2, c_max = round_opt (agg_max xs) 2\<rparr>"

definition get_temperature_humidity_averages :: "int \<Rightarrow> env_reading list \<Rightarrow> int option \<Rightarrow> bool \<Rightarrow> temp_humidity_result" where
  "get_temperature_humidity_averages now df days by_section_flag =
     (let days = days_or days ANALYSIS_WINDOWS_medium_term;
          cutoff_date = now - timedelta_days days;
          recent_df = filter (\<lambda>e. cutoff_date \<le> env_timestamp e) df;
          section_stats =
            (if by_section_flag
             then map (\<lambda>(section, rows).
                         let t = agg4 (map env_temperature_f rows);
                             h = agg4 (map env_humidity_percent rows)
                         in \<lparr>ss_kennel_section = section,
                             ss_temperature_f = t,
                             ss_humidity_percent = h,
                             ss_noise_level_db = agg4 (map env_noise_level_db rows),
                             temp_comfort_rating = rate_temperature_comfort (c_mean t),
                             humidity_comfort_rating = rate_humidity_comfort (c_mean h)\<rparr>)
                    (groupby env_kennel_section recent_df)
             else []);
          overall_stats =
            \<lparr>avg_temperature = mean (map env_temperature_f recent_df),
             avg_humidity = mean (map env_humidity_percent recent_df),
             avg_noise = mean (map env_noise_level_db recent_df),
             temp_std = std (map env_temperature_f recent_df),
             humidity_std = std (map env_humidity_percent recent_df),
             noise_std = std (map env_noise_level_db recent_df),
             total_readings = length recent_df,
             days_analyzed = days\<rparr>
      in \<lparr>overall = overall_stats,
          by_section = section_stats,
          comfort_summary = get_comfort_summary recent_df\<rparr>)"

record noise_result =
  total_alerts :: nat
  critical_alerts :: nat
  alerts_per_day :: real
  hourly_alerts :: "((int \<times> int) \<times> nat) list"
  daily_breakdown :: "(int \<times> (string \<times> nat) list) list"
  peak_noise_hours :: "(int \<times> real option) list"
  noise_distribution :: "(string \<times> nat) list"
  recent_alerts :: "(env_reading \<times> string) list"

definition get_noise_level_alerts :: "int \<Rightarrow> env_reading list \<Rightarrow> int option \<Rightarrow> noise_result" where
  "get_noise_level_alerts now df days =
     (let days = days_or days ANALYSIS_WINDOWS_short_term;
          cutoff_date = now - timedelta_days days;
          recent_df =
            map (\<lambda>e. (e, categorize_noise_level (Some (env_noise_level_db e))))
              (filter (\<lambda>e. cutoff_date \<le> env_timestamp e) df);
          alerts = filter (\<lambda>(e, _). noise_alert_threshold < env_noise_level_db e) recent_df;
          hourly_alerts =
            map (\<lambda>(k, rows). (k, length rows))
              (groupby (\<lambda>(e, _). (env_date e, env_hour e)) alerts);
          categories = sort (remdups (map snd recent_df));
          daily_alerts =
            map (\<lambda>(d, rows).
                   (d, map (\<lambda>c. (c, length (filter (\<lambda>(_, c'). c' = c) rows))) categories))
              (groupby (\<lambda>(e, _). env_date e) recent_df);
          hourly_avg =
            map (\<lambda>(h, rows). (h, round_opt (mean (map (\<lambda>(e, _). env_noise_level_db e) rows)) 2))
              (groupby (\<lambda>(e, _). env_hour e) recent_df);
          peak_hours =
            sort_values_desc snd (filter (\<lambda>(_, avg). gt_nan avg noise_alert_threshold) hourly_avg)
      in \<lparr>total_alerts = length alerts,
          critical_alerts =
            length (filter (\<lambda>(e, _). noise_critical_threshold < env_noise_level_db e) recent_df),
          alerts_per_day = real (length alerts) / real_of_int days,
          hourly_alerts = hourly_alerts,
          daily_breakdown = daily_alerts,
          peak_noise_hours = peak_hours,
          noise_distribution = value_counts (map snd recent_df),
          recent_alerts = tail 10 alerts\<rparr>)"


record hourly_row =
  hr_date :: int
  hr_hour :: int
  hr_temperature_f :: "real option"
  hr_humidity_percent :: "real option"
  hr_noise_level_db :: "real option"
  hr_total_activity_minutes :: real
  hr_activity_count :: nat

text \<open>The inner join of the hourly environment means and the hourly activity totals on
  (date, hour), in the order of the environment keys.\<close>

definition hourly_join :: "int \<Rightarrow> env_reading list \<Rightarrow> activity list \<Rightarrow> hourly_row list" where
  "hourly_join cutoff_date df pet_activities_df =
     (let env_hourly =
            map (\<lambda>(k, rows).
                   (k, mean (map env_temperature_f rows), mean (map env_humidity_percent rows),
                    mean (map env_noise_level_db rows)))
              (groupby (\<lambda>e. (env_date e, env_hour e))
                 (filter (\<lambda>e. cutoff_date \<le> env_timestamp e) df));
          activity_hourly =
            map (\<lambda>(k, rows). (k, sum_list (map act_duration_minutes rows), length rows))
              (groupby (\<lambda>a. (act_date a, act_hour a))
                 (filter (\<lambda>a. cutoff_date \<le> act_timestamp a) pet_activities_df))
      in concat
           (map (\<lambda>(k, temperature, humidity, noise).
                   map (\<lambda>(_, minutes, n).
                          \<lparr>hr_date = fst k, hr_hour = snd k,
                           hr_temperature_f = temperature,
                           hr_humidity_percent = humidity,
                           hr_noise_level_db = noise,
                           hr_total_activity_minutes = minutes,
                           hr_activity_count = n\<rparr>)
                     (filter (\<lambda>(k', _, _). k' = k) activity_hourly))
              env_hourly))"

text \<open>\<open>Series.corr\<close> leaves out the rows where a value is NaN.\<close>

definition corr_nan :: "real option list \<Rightarrow> real list \<Rightarrow> real option" where
  "corr_nan xs ys =
     (let ps = List.map_filter (\<lambda>(x, y). map_option (\<lambda>v. (v, y)) x) (zip xs ys)
      in corr (map fst ps) (map snd ps))"

text \<open>\<open>idxmax\<close>: the first key that holds the largest value, NaN values left out.\<close>

definition idxmax :: "('k \<times> real option) list \<Rightarrow> 'k option" where
  "idxmax kvs =
     (let vs = List.map_filter snd kvs
      in if vs = [] then None
         else map_option fst (find (\<lambda>(_, v). v = Some (Max (set vs))) kvs))"

definition find_optimal_temperature_range :: "(hourly_row \<times> string) list \<Rightarrow> string" where
  "find_optimal_temperature_range merged_df =
     (let activity_by_temp =
            map (\<lambda>(r, rows). (r, mean (map (\<lambda>(h, _). hr_total_activity_minutes h) rows)))
              (groupby snd merged_df)
      in if activity_by_temp \<noteq> []
         then (case idxmax activity_by_temp of Some r \<Rightarrow> r | None \<Rightarrow> ''nan'')
         else ''unknown'')"

definition interpret_correlation :: "real option \<Rightarrow> string" where
  "interpret_correlation correlation =
     (let abs_corr = map_option abs correlation
      in if ge_nan abs_corr (7 / 10) then ''strong''
         else if ge_nan abs_corr (4 / 10) then ''moderate''
         else if ge_nan abs_corr (2 / 10) then ''weak''
         else ''negligible'')"

record correlation_result =
  temperature_activity_correlation :: "real option"
  temperature_count_correlation :: "real option"
  humidity_activity_correlation :: "real option"
  activity_by_temperature_range :: "(string \<times> real option \<times> real option) list"
  optimal_temperature_range :: string
  data_points :: nat
  correlation_strength :: string

definition get_temperature_activity_correlation :: "int \<Rightarrow> env_reading list \<Rightarrow> activity list \<Rightarrow> int option \<Rightarrow> string + correlation_result" where
  "get_temperature_activity_correlation now df pet_activities_df days =
     (let days = days_or days ANALYSIS_WINDOWS_medium_term;
          cutoff_date = now - timedelta_days days;
          merged_df = hourly_join cutoff_date df pet_activities_df
      in if merged_df = []
         then Inl ''No matching data found for correlation analysis''
         else
           let temp_activity_corr =
                 corr_nan (map hr_temperature_f merged_df)
                   (map hr_total_activity_minutes merged_df);
               temp_count_corr =
                 corr_nan (map hr_temperature_f merged_df)
                   (map (\<lambda>h. real (hr_activity_count h)) merged_df);
               humidity_activity_corr =
                 corr_nan (map hr_humidity_percent merged_df)
                   (map hr_total_activity_minutes merged_df);
               ranged_df =
                 map (\<lambda>h. (h, categorize_temperature_range (hr_temperature_f h))) merged_df;
               activity_by_temp =
                 map (\<lambda>(r, rows).
                        (r, round_opt (mean (map (\<lambda>(h, _). hr_total_activity_minutes h) rows)) 2,
                         round_opt (mean (map (\<lambda>(h, _). real (hr_activity_count h)) rows)) 2))
                   (groupby snd ranged_df)
           in Inr \<lparr>temperature_activity_correlation = round_opt temp_activity_corr 3,
                   temperature_count_correlation = round_opt temp_count_corr 3,
                   humidity_activity_correlation = round_opt humidity_activity_corr 3,
                   activity_by_temperature_range = activity_by_temp,
                   optimal_temperature_range = find_optimal_temperature_range ranged_df,
                   data_points = length merged_df,
                   correlation_strength = interpret_correlation temp_activity_corr\<rparr>)"

definition calculate_comfort_score :: "overall_stats \<Rightarrow> real" where
  "calculate_comfort_score stats =
     (let temp_score =
            (if between_nan temperature_optimal_min (avg_temperature stats)
                  temperature_optimal_max then 100 else 50 :: real);
          humidity_score =
            (if between_nan humidity_optimal_min (avg_humidity stats)
                  humidity_optimal_max then 100 else 50);
          noise_score =
            (if le_nan (avg_noise stats) noise_normal_max then 100 else 50)
      in round_ndigits ((temp_score + humidity_score + noise_score) / 3) 1)"

record environmental_summary =
  environmental_conditions :: temp_humidity_result
  noise_monitoring :: noise_result
  overall_comfort_score :: real
  temperature_activity_insights :: "(string + correlation_result) option"

definition get_environmental_summary :: "int \<Rightarrow> env_reading list \<Rightarrow> activity list option \<Rightarrow> environmental_summary" where
  "get_environmental_summary now df pet_activities_df =
     (let temp_humidity = get_temperature_humidity_averages now df None True;
          noise_analysis = get_noise_level_alerts now df None
      in \<lparr>environmental_conditions = temp_humidity,
          noise_monitoring = noise_analysis,
          overall_comfort_score = calculate_comfort_score (overall temp_humidity),
          temperature_activity_insights =
            map_option (\<lambda>acts. get_temperature_activity_correlation now df acts None)
              pet_activities_df\<rparr>)"


section \<open>OperationsAnalyzer (dashboard/analytics/operations.py)\<close>

record pet_grooming =
  pg_pet_id :: string
  pg_pet_name :: string
  pg_total_grooming_sessions :: nat
  first_groom :: "int option"
  latest_groom :: "int option"
  avg_duration :: "real option"
  days_since_last_groom :: "int option"
  grooming_frequency :: real

record daily_grooming =
  dg_date :: int
  grooming_sessions :: nat
  total_minutes :: real
  dg_avg_duration :: "real option"
  staff_involved :: nat

record grooming_result =
  total_grooming_sessions :: nat
  pets_groomed :: nat
  avg_sessions_per_pet :: "real option"
  avg_grooming_duration :: "real option"
  pets_needing_grooming :: nat
  pets_overdue_grooming :: nat
  grooming_schedule_compliance :: real
  gr_detailed_per_pet :: "pet_grooming list"
  daily_patterns :: "daily_grooming list"
  pets_needing_attention :: "(string \<times> string \<times> int option) list"

definition grooming_interval :: "int option \<Rightarrow> int option \<Rightarrow> nat \<Rightarrow> real" where
  "grooming_interval first latest sessions =
     (if 1 < sessions
      then (case days_between first latest of
              Some d \<Rightarrow> real_of_int d / real (max 1 (sessions - 1))
            | None \<Rightarrow> 0)
      else 0)"

definition pet_grooming_table :: "int \<Rightarrow> activity list \<Rightarrow> pet_grooming list" where
  "pet_grooming_table now grooming_df =
     map (\<lambda>(k, rows).
            let first = agg_min (map act_timestamp rows);
                latest = agg_max (map act_timestamp rows)
            in \<lparr>pg_pet_id = fst k, pg_pet_name = snd k,
                pg_total_grooming_sessions = length rows,
                first_groom = first,
                latest_groom = latest,
                avg_duration = mean (map act_duration_minutes rows),
                days_since_last_groom = map_option (\<lambda>l. td_days (now - l)) latest,
                grooming_frequency = grooming_interval first latest (length rows)\<rparr>)
       (groupby (\<lambda>a. (act_pet_id a, act_pet_name a)) grooming_df)"

definition get_grooming_cleaning_frequency :: "int \<Rightarrow> activity list \<Rightarrow> int option \<Rightarrow> string + grooming_result" where
  "get_grooming_cleaning_frequency now activities_df days =
     (let days = days_or days ANALYSIS_WINDOWS_medium_term;
          cutoff_date = now - timedelta_days days;
          grooming_df =
            filter (\<lambda>a. act_activity_type a = ''grooming'' \<and> cutoff_date \<le> act_timestamp a)
              activities_df
      in if grooming_df = []
         then Inl ''No grooming data found for the specified period''
         else
           let pet_grooming = pet_grooming_table now grooming_df;
               pets_needing_grooming =
                 filter (\<lambda>r. gt_nan (days_since_last_groom r) target_days_between) pet_grooming;
               pets_overdue_grooming =
                 filter (\<lambda>r. gt_nan (days_since_last_groom r) alert_days_overdue) pet_grooming;
               daily_grooming =
                 map (\<lambda>(d, rows).
                        \<lparr>dg_date = d,
                         grooming_sessions = length rows,
                         total_minutes = sum_list (map act_duration_minutes rows),
                         dg_avg_duration = mean (map act_duration_minutes rows),
                         staff_involved = nunique (map act_staff_id rows)\<rparr>)
                   (groupby act_date grooming_df)
           in Inr \<lparr>total_grooming_sessions = length grooming_df,
                   pets_groomed = length pet_grooming,
                   avg_sessions_per_pet =
                     mean (map (\<lambda>r. real (pg_total_grooming_sessions r)) pet_grooming),
                   avg_grooming_duration = mean (map act_duration_minutes grooming_df),
                   pets_needing_grooming = length pets_needing_grooming,
                   pets_overdue_grooming = length pets_overdue_grooming,
                   grooming_schedule_compliance =
                     (if 0 < length pet_grooming
                      then (1 - real (length pets_overdue_grooming) / real (length pet_grooming))
                           * 100
                      else 0),
                   gr_detailed_per_pet = pet_grooming,
                   daily_patterns = daily_grooming,
                   pets_needing_attention =
                     map (\<lambda>r. (pg_pet_id r, pg_pet_name r, days_since_last_groom r))
                       pets_overdue_grooming\<rparr>)"

definition rate_staff_performance :: "pyfloat \<Rightarrow> string" where
  "rate_staff_performance tasks_per_hour =
     (if ge_pyfloat tasks_per_hour target_tasks_per_hour then ''excellent''
      else if ge_pyfloat tasks_per_hour min_tasks_per_hour then ''satisfactory''
      else ''below_target'')"

record staff_perf_row =
  sp_staff_id :: string
  sp_staff_name :: string
  sp_total_tasks :: real
  avg_tasks_per_shift :: "real option"
  total_hours :: real
  avg_hours_per_shift :: "real option"
  avg_tasks_per_hour :: pyfloat
  total_shifts :: nat
  performance_rating :: string

record staff_metrics =
  sm_staff :: staff_perf_row
  sm_total_activities :: nat
  sm_total_activity_minutes :: real
  sm_activity_breakdown :: "(string \<times> nat) list option"

record staff_result =
  total_staff_analyzed :: nat
  avg_tasks_per_hour_kennel :: pyfloat
  top_performers :: "staff_perf_row list"
  staff_needing_support :: "staff_perf_row list"
  shift_type_performance :: "(string \<times> pyfloat) list"
  detailed_staff_metrics :: "staff_metrics list"
  performance_distribution :: "(string \<times> nat) list"

text \<open>\<open>fillna(0)\<close> on the merged staff table: a NaN becomes 0; a staff member without
  activities in the window gets 0 activities, 0 minutes and no breakdown.\<close>

definition fillna0 :: "staff_perf_row \<Rightarrow> staff_perf_row" where
  "fillna0 r =
     r\<lparr>avg_tasks_per_shift :=
         (case avg_tasks_per_shift r of None \<Rightarrow> Some 0 | Some v \<Rightarrow> Some v),
       avg_hours_per_shift :=
         (case avg_hours_per_shift r of None \<Rightarrow> Some 0 | Some v \<Rightarrow> Some v),
       avg_tasks_per_hour :=
         (if avg_tasks_per_hour r = NaN then Fin 0 else avg_tasks_per_hour r)\<rparr>"

definition staff_performance_table :: "staff_log list \<Rightarrow> staff_perf_row list" where
  "staff_performance_table recent_staff =
     map (\<lambda>(k, rows).
            let avg_tph = fround (fmean (map stf_tasks_per_hour rows)) 2
            in \<lparr>sp_staff_id = fst k, sp_staff_name = snd k,
                sp_total_tasks = round_ndigits (sum_list (map stf_tasks_completed rows)) 2,
                avg_tasks_per_shift = round_opt (mean (map stf_tasks_completed rows)) 2,
                total_hours = round_ndigits (sum_list (map stf_shift_duration_hours rows)) 2,
                avg_hours_per_shift = round_opt (mean (map stf_shift_duration_hours rows)) 2,
                avg_tasks_per_hour = avg_tph,
                total_shifts = length rows,
                performance_rating = rate_staff_performance avg_tph\<rparr>)
       (groupby (\<lambda>s. (stf_staff_id s, stf_staff_name s)) recent_staff)"

definition get_staff_performance_analysis :: "int \<Rightarrow> staff_log list \<Rightarrow> activity list \<Rightarrow> int option \<Rightarrow> string + staff_result" where
  "get_staff_performance_analysis now staff_df activities_df days =
     (let days = days_or days ANALYSIS_WINDOWS_medium_term;
          cutoff_date = now - timedelta_days days;
          recent_staff = filter (\<lambda>s. cutoff_date \<le> stf_shift_start s) staff_df
      in if recent_staff = []
         then Inl ''No staff data found for the specified period''
         else
           let staff_performance = staff_performance_table recent_staff;
               shift_analysis =
                 map (\<lambda>(k, rows).
                        (k, fmean (map stf_tasks_per_hour rows),
                         sum_list (map stf_tasks_completed rows)))
                   (groupby (\<lambda>s. (stf_staff_id s, stf_shift_type s)) recent_staff);
               staff_activities =
                 map (\<lambda>(sid, rows).
                        (sid, length rows, sum_list (map act_duration_minutes rows),
                         value_counts (map act_activity_type rows)))
                   (groupby act_staff_id
                      (filter (\<lambda>a. cutoff_date \<le> act_timestamp a) activities_df));
               combined_performance =
                 map (\<lambda>r.
                        case find (\<lambda>(sid, _). sid = sp_staff_id r) staff_activities of
                          Some (_, n, minutes, breakdown) \<Rightarrow>
                            \<lparr>sm_staff = fillna0 r, sm_total_activities = n,
                             sm_total_activity_minutes = minutes,
                             sm_activity_breakdown = Some breakdown\<rparr>
                        | None \<Rightarrow>
                            \<lparr>sm_staff = fillna0 r, sm_total_activities = 0,
                             sm_total_activity_minutes = 0,
                             sm_activity_breakdown = None\<rparr>)
                   staff_performance
           in Inr \<lparr>total_staff_analyzed = length staff_performance,
                   avg_tasks_per_hour_kennel = fmean (map avg_tasks_per_hour staff_performance),
                   top_performers =
                     nlargest 5 (\<lambda>r. pyfloat_key (avg_tasks_per_hour r)) staff_performance,
                   staff_needing_support =
                     filter (\<lambda>r. performance_rating r = ''below_target'') staff_performance,
                   shift_type_performance =
                     map (\<lambda>(ty, rows). (ty, fmean (map (\<lambda>(_, tph, _). tph) rows)))
                       (groupby (\<lambda>((_, ty), _). ty) shift_analysis),
                   detailed_staff_metrics = combined_performance,
                   performance_distribution =
                     value_counts (map performance_rating staff_performance)\<rparr>)"

record alert_trends =
  health_alerts_trend :: string
  feeding_delays_trend :: string

record alert_result =
  total_health_alerts :: nat
  total_feeding_delays :: nat
  avg_health_alerts_per_day :: real
  avg_feeding_delays_per_day :: real
  peak_health_alert_hours :: "(int \<times> nat) list"
  peak_feeding_issue_hours :: "(int \<times> nat) list"
  pets_with_frequent_health_alerts :: "((string \<times> string) \<times> nat) list"
  pets_with_feeding_issues :: "((string \<times> string) \<times> nat) list"
  staff_alert_response :: "(string \<times> nat) list"
  daily_health_trend :: "(int \<times> nat) list"
  daily_feeding_trend :: "(int \<times> nat) list"
  alert_summary :: alert_trends

definition normal_feeding_hours :: "int list" where
  "normal_feeding_hours = [7, 8, 12, 13, 17, 18]"

definition group_size :: "('a \<Rightarrow> 'k::linorder) \<Rightarrow> 'a list \<Rightarrow> ('k \<times> nat) list" where
  "group_size key xs = map (\<lambda>(k, rows). (k, length rows)) (groupby key xs)"

text \<open>\<open>'increasing' if s.tail(3).mean() > s.head(3).mean() else 'stable'\<close>: with no daily
  counts both means are NaN and the comparison is false.\<close>

definition trend_label :: "nat list \<Rightarrow> string" where
  "trend_label daily_counts =
     (case (mean (map real (tail 3 daily_counts)), mean (map real (take 3 daily_counts))) of
        (Some t, Some h) \<Rightarrow> if h < t then ''increasing'' else ''stable''
      | _ \<Rightarrow> ''stable'')"

definition get_alert_trends_analysis :: "int \<Rightarrow> activity list \<Rightarrow> int option \<Rightarrow> string + alert_result" where
  "get_alert_trends_analysis now activities_df days =
     (let days = days_or days ANALYSIS_WINDOWS_medium_term;
          cutoff_date = now - timedelta_days days;
          recent_activities = filter (\<lambda>a. cutoff_date \<le> act_timestamp a) activities_df;
          health_alerts = filter (\<lambda>a. act_activity_type a = ''medical'') recent_activities;
          feeding_activities = filter (\<lambda>a. act_activity_type a = ''feeding'') recent_activities;
          feeding_delays =
            filter (\<lambda>a. act_hour a \<notin> set normal_feeding_hours) feeding_activities;
          daily_health_alerts = group_size act_date health_alerts;
          daily_feeding_delays = group_size act_date feeding_delays;
          hourly_health_alerts = group_size act_hour health_alerts;
          hourly_feeding_issues = group_size act_hour feeding_delays;
          pet_health_alerts = group_size (\<lambda>a. (act_pet_id a, act_pet_name a)) health_alerts;
          pet_feeding_issues = group_size (\<lambda>a. (act_pet_id a, act_pet_name a)) feeding_delays;
          staff_alert_handling = group_size act_staff_id health_alerts
      in Inr \<lparr>total_health_alerts = length health_alerts,
              total_feeding_delays = length feeding_delays,
              avg_health_alerts_per_day = real (length health_alerts) / real_of_int days,
              avg_feeding_delays_per_day = real (length feeding_delays) / real_of_int days,
              peak_health_alert_hours = nlargest 3 snd hourly_health_alerts,
              peak_feeding_issue_hours = nlargest 3 snd hourly_feeding_issues,
              pets_with_frequent_health_alerts = filter (\<lambda>(_, n). 2 < n) pet_health_alerts,
              pets_with_feeding_issues = filter (\<lambda>(_, n). 1 < n) pet_feeding_issues,
              staff_alert_response = staff_alert_handling,
              daily_health_trend = daily_health_alerts,
              daily_feeding_trend = daily_feeding_delays,
              alert_summary =
                \<lparr>health_alerts_trend = trend_label (map snd daily_health_alerts),
                 feeding_delays_trend = trend_label (map snd daily_feeding_delays)\<rparr>\<rparr>)"



definition calculate_alert_score :: "string + alert_result \<Rightarrow> real" where
  "calculate_alert_score alert_analysis =
     (case alert_analysis of
        Inl _ \<Rightarrow> 50
      | Inr analysis \<Rightarrow>
          let health_alerts_per_day = avg_health_alerts_per_day analysis;
              feeding_delays_per_day = avg_feeding_delays_per_day analysis;
              health_penalty = min 30 (health_alerts_per_day * 5);
              feeding_penalty = min 20 (feeding_delays_per_day * 10)
          in max 0 (100 - health_penalty - feeding_penalty))"



record operations_summary =
  operations_score :: real
  grooming_operations :: "string + grooming_result"
  staff_performance :: "string + staff_result"
  alert_management :: "string + alert_result"
  key_recommendations :: "string list"



section \<open>Example scenarios\<close>

text \<open>A shift from 09:00 to 17:00 with ten tasks, and a shift that ends when it starts.\<close>

definition example_shift :: raw_staff_log where
  "example_shift =
     \<lparr>raw_staff_id = ''S1'', raw_staff_name = ''Sam'',
      raw_shift_start = 9 * 3600, raw_shift_end = 17 * 3600,
      raw_tasks_completed = Some 10\<rparr>"

definition zero_shift :: raw_staff_log where
  "zero_shift =
     \<lparr>raw_staff_id = ''S2'', raw_staff_name = ''Kim'',
      raw_shift_start = 9 * 3600, raw_shift_end = 9 * 3600,
      raw_tasks_completed = Some 5\<rparr>"

text \<open>One environment reading, at 10:00 of day 0.\<close>

definition example_reading :: env_reading where
  "example_reading =
     \<lparr>env_timestamp = 10 * 3600, env_kennel_section = ''A'',
      env_temperature_f = 70, env_humidity_percent = 50, env_noise_level_db = 38,
      env_date = 0, env_hour = 10,
      env_temp_comfort = ''comfortable'', env_humidity_comfort = ''comfortable'',
      env_noise_comfort = ''normal''\<rparr>"

text \<open>Two surviving activity records of the pet Rex, of 30 and 45 minutes on days 10 and 11,
  analysed on day 12.\<close>

definition rex_activity :: "int \<Rightarrow> real \<Rightarrow> activity" where
  "rex_activity d minutes =
     \<lparr>act_pet_id = ''P1'', act_pet_name = ''Rex'', act_activity_type = ''play'',
      act_timestamp = d * 86400 + 10 * 3600, act_duration_minutes = minutes,
      act_staff_id = ''S1'', act_notes = None, act_date = d, act_hour = 10\<rparr>"

definition example_now :: int where
  "example_now = 12 * 86400"

definition rex_activities :: "activity list" where
  "rex_activities = [rex_activity 10 30, rex_activity 11 45]"

text \<open>An environment reading in the hour of Rex's activity on day 10.\<close>

definition rex_reading :: env_reading where
  "rex_reading =
     \<lparr>env_timestamp = 10 * 86400 + 10 * 3600, env_kennel_section = ''A'',
      env_temperature_f = 70, env_humidity_percent = 50, env_noise_level_db = 38,
      env_date = 10, env_hour = 10,
      env_temp_comfort = ''comfortable'', env_humidity_comfort = ''comfortable'',
      env_noise_comfort = ''normal''\<rparr>"

section \<open>Properties\<close>

lemmas config_defs =
  ANALYSIS_WINDOWS_short_term_def ANALYSIS_WINDOWS_medium_term_def
  ANALYSIS_WINDOWS_long_term_def
  min_activity_minutes_per_day_def max_activity_minutes_per_day_def
  min_feeding_times_per_day_def max_feeding_times_per_day_def
  temperature_optimal_min_def temperature_optimal_max_def
  temperature_alert_min_def temperature_alert_max_def
  humidity_optimal_min_def humidity_optimal_max_def
  humidity_alert_min_def humidity_alert_max_def
  noise_normal_max_def noise_alert_threshold_def noise_critical_threshold_def
  min_tasks_per_hour_def target_tasks_per_hour_def max_tasks_per_hour_def
  target_days_between_def alert_days_overdue_def

subsection \<open>Rounding\<close>

lemma round_ndigits_comfort:
  "round_ndigits (150 / 3) 1 = 50"
  "round_ndigits (200 / 3) 1 = 667 / 10"
  "round_ndigits (250 / 3) 1 = 833 / 10"
  "round_ndigits (300 / 3) 1 = 100"
  by (simp_all add: round_ndigits_def round_half_even_def Let_def)

subsection \<open>The comfort score\<close>

text \<open>
  C7. \<open>_calculate_comfort_score\<close> returns one of 50.0, 66.7, 83.3 and 100.0 for every
  statistics mapping, NaN averages included (a NaN average scores 50), so the score is
  never outside the interval from 0 to 100.
\<close>

theorem comfort_score_values:
  "calculate_comfort_score stats \<in> {50, 667 / 10, 833 / 10, 100}
   \<and> 0 \<le> calculate_comfort_score stats \<and> calculate_comfort_score stats \<le> 100"
proof -
  define t where
    "t = between_nan temperature_optimal_min (avg_temperature stats) temperature_optimal_max"
  define h where
    "h = between_nan humidity_optimal_min (avg_humidity stats) humidity_optimal_max"
  define n where "n = le_nan (avg_noise stats) noise_normal_max"
  have eq: "calculate_comfort_score stats =
      round_ndigits
        (((if t then 100 else 50) + (if h then 100 else 50) + (if n then 100 else 50)) / 3) 1"
    by (simp add: calculate_comfort_score_def Let_def t_def h_def n_def)
  have "calculate_comfort_score stats \<in> {50, 667 / 10, 833 / 10, 100}"
    unfolding eq using round_ndigits_comfort by (cases t; cases h; cases n) simp_all
  then show ?thesis by auto
qed

subsection \<open>Staff logs\<close>

lemma transform_staff_logs_single:
  "transform_staff_logs [r] = (case transform_staff_row r of None \<Rightarrow> [] | Some s \<Rightarrow> [s])"
  by (simp add: transform_staff_logs_def List.map_filter_simps split: option.splits)

lemma set_map_filter:
  "set (List.map_filter f xs) = {y. \<exists>x \<in> set xs. f x = Some y}"
  by (induction xs) (auto simp: List.map_filter_simps split: option.splits)

lemma set_transform_staff_logs:
  "set (transform_staff_logs staff_df) = {s. \<exists>r \<in> set staff_df. transform_staff_row r = Some s}"
  by (simp add: transform_staff_logs_def set_map_filter)

text \<open>
  C5 (as amended). A shift from 09:00 to 17:00 of one day lasts 8 hours; with 10 tasks
  completed its \<open>tasks_per_hour\<close> is 1.25, and with the configured target of 1.2 and
  minimum of 0.8 tasks per hour the rating of 1.25 is \<open>excellent\<close>, since 1.25 reaches
  the target.
\<close>

theorem staff_example_rating:
  assumes "raw_shift_start r = day * 86400 + 9 * 3600"
    and "raw_shift_end r = day * 86400 + 17 * 3600"
    and "raw_tasks_completed r = Some 10"
  shows "map stf_shift_duration_hours (transform_staff_logs [r]) = [8]
    \<and> map stf_tasks_per_hour (transform_staff_logs [r]) = [Fin (5 / 4)]
    \<and> map (\<lambda>s. rate_staff_performance (stf_tasks_per_hour s)) (transform_staff_logs [r])
        = [''excellent'']"
  using assms
  by (simp add: transform_staff_logs_single transform_staff_row_def fdiv_def
      rate_staff_performance_def target_tasks_per_hour_def Let_def)

text \<open>
  The scenario of C5 on day 0.
\<close>

theorem staff_example_rating_witness:
  "map stf_shift_duration_hours (transform_staff_logs [example_shift]) = [8]
    \<and> map stf_tasks_per_hour (transform_staff_logs [example_shift]) = [Fin (5 / 4)]
    \<and> map (\<lambda>s. rate_staff_performance (stf_tasks_per_hour s)) (transform_staff_logs [example_shift])
        = [''excellent'']"
  using staff_example_rating [of example_shift 0]
  by (simp add: example_shift_def)

text \<open>
  C5 as stated fails: the rating of 1.25 tasks per hour is not \<open>satisfactory\<close>.
\<close>

theorem staff_example_not_satisfactory:
  "\<not> (map stf_tasks_per_hour (transform_staff_logs [example_shift]) = [Fin (5 / 4)]
      \<and> rate_staff_performance (Fin (5 / 4)) = ''satisfactory'')"
  by (simp add: rate_staff_performance_def target_tasks_per_hour_def)

text \<open>
  C8. A staff row whose shift ends when it starts, with a valid number \<open>t\<close> of completed
  tasks, is kept by \<open>transform_staff_logs\<close> with a duration of 0 hours, and its
  \<open>tasks_per_hour\<close> is the quotient of \<open>t\<close> by that zero: infinity when \<open>t\<close> is positive,
  NaN when it is 0. Nothing drops or nulls the row before the division.
\<close>

theorem zero_duration_unguarded:
  assumes "r \<in> set staff_df"
    and "raw_shift_end r = raw_shift_start r"
    and "raw_tasks_completed r = Some t"
    and "0 \<le> t"
  shows "\<exists>s. s \<in> set (transform_staff_logs staff_df)
      \<and> stf_staff_id s = raw_staff_id r \<and> stf_shift_start s = raw_shift_start r
      \<and> stf_shift_end s = raw_shift_start r \<and> stf_tasks_completed s = t
      \<and> stf_shift_duration_hours s = 0
      \<and> stf_tasks_per_hour s = fdiv t 0
      \<and> stf_tasks_per_hour s = (if 0 < t then PInf else NaN)"
proof -
  let ?s = "\<lparr>stf_staff_id = raw_staff_id r, stf_staff_name = raw_staff_name r,
      stf_shift_start = raw_shift_start r, stf_shift_end = raw_shift_end r,
      stf_tasks_completed = t, stf_shift_duration_hours = 0,
      stf_shift_type = categorize_shift (dt_hour (raw_shift_start r)),
      stf_tasks_per_hour = fdiv t 0\<rparr>"
  have "transform_staff_row r = Some ?s"
    using assms by (simp add: transform_staff_row_def Let_def)
  then have "?s \<in> set (transform_staff_logs staff_df)"
    using assms(1) by (auto simp: set_transform_staff_logs)
  moreover have "fdiv t 0 = (if 0 < t then PInf else NaN)"
    using assms(4) by (simp add: fdiv_def)
  ultimately show ?thesis
    using assms(2) by (intro exI [of _ ?s]) simp
qed

text \<open>
  The zero-duration shift with 5 tasks: the row survives with infinite productivity.
\<close>

theorem zero_duration_unguarded_witness:
  "transform_staff_logs [zero_shift] =
     [\<lparr>stf_staff_id = ''S2'', stf_staff_name = ''Kim'',
       stf_shift_start = 32400, stf_shift_end = 32400,
       stf_tasks_completed = 5, stf_shift_duration_hours = 0,
       stf_shift_type = ''morning'', stf_tasks_per_hour = PInf\<rparr>]
   \<and> (\<exists>s. s \<in> set (transform_staff_logs [zero_shift])
      \<and> stf_shift_duration_hours s = 0 \<and> stf_tasks_per_hour s = PInf)"
proof -
  have "\<exists>s. s \<in> set (transform_staff_logs [zero_shift])
      \<and> stf_shift_duration_hours s = 0 \<and> stf_tasks_per_hour s = PInf"
    using zero_duration_unguarded [of zero_shift "[zero_shift]" 5]
    by (simp add: zero_shift_def) blast
  moreover have "transform_staff_logs [zero_shift] =
     [\<lparr>stf_staff_id = ''S2'', stf_staff_name = ''Kim'',
       stf_shift_start = 32400, stf_shift_end = 32400,
       stf_tasks_completed = 5, stf_shift_duration_hours = 0,
       stf_shift_type = ''morning'', stf_tasks_per_hour = PInf\<rparr>]"
    by (simp add: transform_staff_logs_single transform_staff_row_def zero_shift_def
        fdiv_def categorize_shift_def dt_hour_def Let_def)
  ultimately show ?thesis by blast
qed

subsection \<open>The daily summary\<close>

lemma count_distinct:
  "distinct xs \<Longrightarrow> length (filter (\<lambda>x. x = d) xs) = (if d \<in> set xs then 1 else 0)"
  by (induction xs) auto

lemma set_summary_dates:
  "set (summary_dates pet_df env_df staff_df) =
     act_date ` set pet_df \<union> env_date ` set env_df
     \<union> (\<lambda>s. dt_date (stf_shift_start s)) ` set staff_df"
  by (simp add: summary_dates_def Un_assoc)

lemma distinct_summary_dates: "distinct (summary_dates pet_df env_df staff_df)"
  by (simp add: summary_dates_def)

lemma summary_row_date: "ds_date (summary_row pet_df env_df staff_df d) = d"
  by (simp add: summary_row_def Let_def)

lemma map_date_create_daily_summary:
  "map ds_date (create_daily_summary pet_df env_df staff_df) = summary_dates pet_df env_df staff_df"
  by (simp add: create_daily_summary_def summary_row_date comp_def)

lemma filter_empty_iff_image: "(filter (\<lambda>x. f x = d) xs = []) = (d \<notin> f ` set xs)"
  by (auto simp: filter_empty_conv)

lemma mean_eq_None: "(mean xs = None) = (xs = [])"
  by (simp add: mean_def)

lemma summary_row_fields:
  "(ds_avg_temperature (summary_row pet_df env_df staff_df d) = None) = (d \<notin> env_date ` set env_df)"
  "(ds_avg_humidity (summary_row pet_df env_df staff_df d) = None) = (d \<notin> env_date ` set env_df)"
  "(ds_avg_noise (summary_row pet_df env_df staff_df d) = None) = (d \<notin> env_date ` set env_df)"
  "total_activities (summary_row pet_df env_df staff_df d) = length (filter (\<lambda>a. act_date a = d) pet_df)"
  "staff_shifts (summary_row pet_df env_df staff_df d)
     = length (filter (\<lambda>s. dt_date (stf_shift_start s) = d) staff_df)"
  "d \<notin> act_date ` set pet_df \<Longrightarrow> total_activities (summary_row pet_df env_df staff_df d) = 0"
  "d \<notin> act_date ` set pet_df \<Longrightarrow> total_activity_minutes (summary_row pet_df env_df staff_df d) = 0"
  "d \<notin> act_date ` set pet_df \<Longrightarrow> unique_pets (summary_row pet_df env_df staff_df d) = 0"
  "d \<notin> (\<lambda>s. dt_date (stf_shift_start s)) ` set staff_df \<Longrightarrow>
     staff_shifts (summary_row pet_df env_df staff_df d) = 0"
  "d \<notin> (\<lambda>s. dt_date (stf_shift_start s)) ` set staff_df \<Longrightarrow>
     total_tasks (summary_row pet_df env_df staff_df d) = 0"
  by (simp_all add: summary_row_def Let_def mean_eq_None filter_empty_iff_image)

text \<open>
  C3 (as amended). \<open>create_daily_summary\<close> has exactly one row for each date of the union
  of the three tables and none for any other date. On a date without environment
  readings the three averages are null, and they are null only then. On a date without
  activities \<open>total_activities\<close>, \<open>total_activity_minutes\<close> and \<open>unique_pets\<close> are zero; on a
  date without shifts \<open>staff_shifts\<close> and \<open>total_tasks\<close> are zero.
\<close>

theorem daily_summary_rows:
  "(\<forall>d. length (filter (\<lambda>row. ds_date row = d) (create_daily_summary pet_df env_df staff_df))
        = (if d \<in> act_date ` set pet_df \<union> env_date ` set env_df
                 \<union> (\<lambda>s. dt_date (stf_shift_start s)) ` set staff_df
           then 1 else 0))
   \<and> (\<forall>row \<in> set (create_daily_summary pet_df env_df staff_df).
        ((ds_avg_temperature row = None) = (ds_date row \<notin> env_date ` set env_df))
        \<and> ((ds_avg_humidity row = None) = (ds_date row \<notin> env_date ` set env_df))
        \<and> ((ds_avg_noise row = None) = (ds_date row \<notin> env_date ` set env_df))
        \<and> (ds_date row \<notin> act_date ` set pet_df \<longrightarrow>
              total_activities row = 0 \<and> total_activity_minutes row = 0 \<and> unique_pets row = 0)
        \<and> (ds_date row \<notin> (\<lambda>s. dt_date (stf_shift_start s)) ` set staff_df \<longrightarrow>
              staff_shifts row = 0 \<and> total_tasks row = 0))"
proof (intro conjI allI ballI)
  fix d
  have "length (filter (\<lambda>row. ds_date row = d) (create_daily_summary pet_df env_df staff_df))
      = length (filter (\<lambda>x. x = d) (map ds_date (create_daily_summary pet_df env_df staff_df)))"
    by (simp add: filter_map comp_def)
  also have "\<dots> = (if d \<in> set (summary_dates pet_df env_df staff_df) then 1 else 0)"
    unfolding map_date_create_daily_summary
    by (rule count_distinct) (rule distinct_summary_dates)
  finally show "length (filter (\<lambda>row. ds_date row = d) (create_daily_summary pet_df env_df staff_df))
        = (if d \<in> act_date ` set pet_df \<union> env_date ` set env_df
                 \<union> (\<lambda>s. dt_date (stf_shift_start s)) ` set staff_df
           then 1 else 0)"
    by (simp only: set_summary_dates)
next
  fix row assume "row \<in> set (create_daily_summary pet_df env_df staff_df)"
  then obtain d where row: "row = summary_row pet_df env_df staff_df d"
    by (auto simp: create_daily_summary_def)
  show "(ds_avg_temperature row = None) = (ds_date row \<notin> env_date ` set env_df)"
    "(ds_avg_humidity row = None) = (ds_date row \<notin> env_date ` set env_df)"
    "(ds_avg_noise row = None) = (ds_date row \<notin> env_date ` set env_df)"
    "ds_date row \<notin> act_date ` set pet_df \<longrightarrow>
              total_activities row = 0 \<and> total_activity_minutes row = 0 \<and> unique_pets row = 0"
    "ds_date row \<notin> (\<lambda>s. dt_date (stf_shift_start s)) ` set staff_df \<longrightarrow>
              staff_shifts row = 0 \<and> total_tasks row = 0"
    unfolding row summary_row_date by (simp_all add: summary_row_fields filter_empty_iff_image)
qed

text \<open>
  C3 as stated fails: on a date with an environment reading only, the activity minutes,
  the number of pets and the task total are 0, not null.
\<close>

theorem daily_summary_zero_not_null:
  "create_daily_summary [] [example_reading] [] =
     [\<lparr>ds_date = 0, total_activities = 0, total_activity_minutes = 0, unique_pets = 0,
       ds_avg_temperature = Some 70, ds_avg_humidity = Some 50, ds_avg_noise = Some 38,
       staff_shifts = 0, total_tasks = 0\<rparr>]"
  by (simp add: create_daily_summary_def summary_dates_def summary_row_def example_reading_def
      mean_def Let_def)

text \<open>
  The summary of a single environment reading.
\<close>

theorem daily_summary_rows_witness:
  "length (filter (\<lambda>row. ds_date row = 0) (create_daily_summary [] [example_reading] [])) = 1
   \<and> length (filter (\<lambda>row. ds_date row = 1) (create_daily_summary [] [example_reading] [])) = 0
   \<and> map ds_avg_temperature (create_daily_summary [] [example_reading] []) = [Some 70]
   \<and> map total_activities (create_daily_summary [] [example_reading] []) = [0]
   \<and> map staff_shifts (create_daily_summary [] [example_reading] []) = [0]"
  using daily_summary_rows [of "[]" "[example_reading]" "[]"]
  by (simp add: create_daily_summary_def summary_dates_def summary_row_def example_reading_def
      mean_def Let_def)

subsection \<open>The operations score\<close>





lemma length_groupby: "length (groupby key xs) = length (remdups (map key xs))"
  by (simp add: groupby_def)




lemma alert_score_Inr:
  "calculate_alert_score (Inr analysis) =
     max 0 (100 - min 30 (avg_health_alerts_per_day analysis * 5)
                - min 20 (avg_feeding_delays_per_day analysis * 10))"
  by (simp add: calculate_alert_score_def Let_def)







subsection \<open>Average activity per pet\<close>



lemma set_groupby:
  "set (groupby key xs) = (\<lambda>k. (k, filter (\<lambda>x. key x = k) xs)) ` key ` set xs"
  by (simp add: groupby_def)














lemma rex_average:
  "get_avg_activity_time_per_pet example_now rex_activities None =
     [\<lparr>pa_pet_id = ''P1'', pa_pet_name = ''Rex'', avg_daily_minutes = Some (75 / 2),
       avg_daily_activities = Some 1, activity_status = ''low''\<rparr>]"
  by (simp add: get_avg_activity_time_per_pet_def pet_averages_def daily_activity_def
      groupby_def sort_values_desc_def rex_activity_def days_or_def timedelta_days_def
      ANALYSIS_WINDOWS_medium_term_def mean_def round_opt_def round_ndigits_def
      round_half_even_def categorize_activity_level_def lt_nan_def gt_nan_def
      min_activity_minutes_per_day_def max_activity_minutes_per_day_def Let_def
      example_now_def rex_activities_def)


subsection \<open>Temperature and activity correlation\<close>

lemma length_map_filter_le: "length (List.map_filter f xs) \<le> length xs"
  by (simp add: List.map_filter_def)

lemma corr_nan_short: "length xs \<le> 1 \<Longrightarrow> corr_nan xs ys = None"
proof -
  assume xs: "length xs \<le> 1"
  let ?ps = "List.map_filter (\<lambda>(x, y). map_option (\<lambda>v. (v, y)) x) (zip xs ys)"
  have "length ?ps \<le> length (zip xs ys)" by (rule length_map_filter_le)
  also have "\<dots> \<le> 1" using xs by simp
  finally have "length (map fst ?ps) < 2" by simp
  then have "corr (map fst ?ps) (map snd ?ps) = None"
    unfolding corr_def by (simp only: if_True)
  then show ?thesis by (simp add: corr_nan_def Let_def)
qed

lemma interpret_correlation_None: "interpret_correlation None = ''negligible''"
  by (simp add: interpret_correlation_def ge_nan_def)

lemma hourly_join_Nil_iff:
  "(hourly_join cutoff_date df pet_activities_df = []) =
     (\<not> (\<exists>e \<in> set df. \<exists>a \<in> set pet_activities_df.
            cutoff_date \<le> env_timestamp e \<and> cutoff_date \<le> act_timestamp a
            \<and> env_date e = act_date a \<and> env_hour e = act_hour a))"
  unfolding hourly_join_def Let_def groupby_def
  by (auto simp: filter_empty_conv image_iff) metis+


text \<open>
  C2 (as amended). \<open>get_temperature_activity_correlation\<close> returns the error mapping
  exactly when the hourly inner join is empty, that is, when no in-window environment
  reading shares its (date, hour) with an in-window activity. Otherwise it returns
  correlation results whose \<open>data_points\<close> is the number of joined rows; with exactly one
  joined row the three correlations are NaN and the strength is \<open>negligible\<close>.
\<close>

theorem correlation_error_iff_empty_join:
  "(case get_temperature_activity_correlation now df pet_activities_df days of
      Inl msg \<Rightarrow>
        msg = ''No matching data found for correlation analysis''
        \<and> hourly_join (now - timedelta_days (days_or days ANALYSIS_WINDOWS_medium_term))
              df pet_activities_df = []
    | Inr r \<Rightarrow>
        data_points r =
          length (hourly_join (now - timedelta_days (days_or days ANALYSIS_WINDOWS_medium_term))
                    df pet_activities_df)
        \<and> 0 < data_points r
        \<and> (data_points r = 1 \<longrightarrow>
              temperature_activity_correlation r = None
              \<and> temperature_count_correlation r = None
              \<and> humidity_activity_correlation r = None
              \<and> correlation_strength r = ''negligible''))
   \<and> (isl (get_temperature_activity_correlation now df pet_activities_df days) =
        (\<not> (\<exists>e \<in> set df. \<exists>a \<in> set pet_activities_df.
               now - timedelta_days (days_or days ANALYSIS_WINDOWS_medium_term) \<le> env_timestamp e
               \<and> now - timedelta_days (days_or days ANALYSIS_WINDOWS_medium_term) \<le> act_timestamp a
               \<and> env_date e = act_date a \<and> env_hour e = act_hour a)))"
proof -
  define merged where "merged =
    hourly_join (now - timedelta_days (days_or days ANALYSIS_WINDOWS_medium_term)) df pet_activities_df"
  show ?thesis
  proof (cases "merged = []")
    case True
    then have "get_temperature_activity_correlation now df pet_activities_df days
        = Inl ''No matching data found for correlation analysis''"
      by (simp add: get_temperature_activity_correlation_def Let_def merged_def)
    moreover have "\<not> (\<exists>e \<in> set df. \<exists>a \<in> set pet_activities_df.
               now - timedelta_days (days_or days ANALYSIS_WINDOWS_medium_term) \<le> env_timestamp e
               \<and> now - timedelta_days (days_or days ANALYSIS_WINDOWS_medium_term) \<le> act_timestamp a
               \<and> env_date e = act_date a \<and> env_hour e = act_hour a)"
      using True unfolding merged_def hourly_join_Nil_iff .
    ultimately show ?thesis
      using True unfolding merged_def by simp
  next
    case False
    then obtain r where r: "get_temperature_activity_correlation now df pet_activities_df days = Inr r"
      and dp: "data_points r = length merged"
      and c1: "temperature_activity_correlation r =
          round_opt (corr_nan (map hr_temperature_f merged) (map hr_total_activity_minutes merged)) 3"
      and c2: "temperature_count_correlation r =
          round_opt (corr_nan (map hr_temperature_f merged)
            (map (\<lambda>h. real (hr_activity_count h)) merged)) 3"
      and c3: "humidity_activity_correlation r =
          round_opt (corr_nan (map hr_humidity_percent merged) (map hr_total_activity_minutes merged)) 3"
      and st: "correlation_strength r = interpret_correlation
          (corr_nan (map hr_temperature_f merged) (map hr_total_activity_minutes merged))"
      by (simp add: get_temperature_activity_correlation_def Let_def flip: merged_def)
    have pos: "0 < data_points r" using False by (simp add: dp)
    have one: "temperature_activity_correlation r = None
        \<and> temperature_count_correlation r = None
        \<and> humidity_activity_correlation r = None
        \<and> correlation_strength r = ''negligible''" if "data_points r = 1"
      using that
      by (simp add: dp c1 c2 c3 st corr_nan_short round_opt_def interpret_correlation_None)
    have "\<not> isl (get_temperature_activity_correlation now df pet_activities_df days)"
      by (simp add: r)
    moreover have "\<exists>e \<in> set df. \<exists>a \<in> set pet_activities_df.
               now - timedelta_days (days_or days ANALYSIS_WINDOWS_medium_term) \<le> env_timestamp e
               \<and> now - timedelta_days (days_or days ANALYSIS_WINDOWS_medium_term) \<le> act_timestamp a
               \<and> env_date e = act_date a \<and> env_hour e = act_hour a"
      using False unfolding merged_def hourly_join_Nil_iff by blast
    ultimately show ?thesis
      using pos one by (simp add: r dp flip: merged_def)
  qed
qed

lemma rex_correlation:
  "get_temperature_activity_correlation example_now [rex_reading] [rex_activity 10 30] None =
     Inr \<lparr>temperature_activity_correlation = None,
          temperature_count_correlation = None,
          humidity_activity_correlation = None,
          activity_by_temperature_range = [(''cool'', Some 30, Some 1)],
          optimal_temperature_range = ''cool'',
          data_points = 1,
          correlation_strength = ''negligible''\<rparr>"
  by (simp add: get_temperature_activity_correlation_def hourly_join_def groupby_def
      rex_reading_def rex_activity_def example_now_def days_or_def timedelta_days_def
      ANALYSIS_WINDOWS_medium_term_def mean_def corr_nan_short round_opt_def
      round_ndigits_def round_half_even_def interpret_correlation_None
      categorize_temperature_range_def lt_nan_def le_nan_def
      find_optimal_temperature_range_def idxmax_def List.map_filter_simps Let_def)

lemma rex_join:
  "length (hourly_join (example_now - timedelta_days (days_or None ANALYSIS_WINDOWS_medium_term))
     [rex_reading] [rex_activity 10 30]) = 1"
  by (simp add: hourly_join_def groupby_def rex_reading_def rex_activity_def example_now_def
      days_or_def timedelta_days_def ANALYSIS_WINDOWS_medium_term_def Let_def)

text \<open>
  C2 as stated fails: with one joined row the method returns results, not an error.
\<close>

theorem correlation_single_row_no_error:
  "length (hourly_join (example_now - timedelta_days (days_or None ANALYSIS_WINDOWS_medium_term))
     [rex_reading] [rex_activity 10 30]) = 1
   \<and> \<not> isl (get_temperature_activity_correlation example_now [rex_reading] [rex_activity 10 30] None)
   \<and> get_temperature_activity_correlation example_now [rex_reading] [rex_activity 10 30] None =
     Inr \<lparr>temperature_activity_correlation = None,
          temperature_count_correlation = None,
          humidity_activity_correlation = None,
          activity_by_temperature_range = [(''cool'', Some 30, Some 1)],
          optimal_temperature_range = ''cool'',
          data_points = 1,
          correlation_strength = ''negligible''\<rparr>"
  by (simp add: rex_correlation rex_join)

text \<open>
  An empty join gives the error; a join of one row gives results with one data point.
\<close>

theorem correlation_error_iff_empty_join_witness:
  "get_temperature_activity_correlation example_now [rex_reading] [] None
     = Inl ''No matching data found for correlation analysis''
   \<and> (\<exists>r. get_temperature_activity_correlation example_now [rex_reading] [rex_activity 10 30] None
          = Inr r \<and> data_points r = 1 \<and> temperature_activity_correlation r = None
            \<and> correlation_strength r = ''negligible'')"
proof -
  note empty = correlation_error_iff_empty_join
    [where now = example_now and df = "[rex_reading]" and pet_activities_df = "[]"
       and days = None]
  note single = correlation_error_iff_empty_join
    [where now = example_now and df = "[rex_reading]"
       and pet_activities_df = "[rex_activity 10 30]" and days = None]
  have "isl (get_temperature_activity_correlation example_now [rex_reading] [] None)"
    using empty by simp
  then have a: "get_temperature_activity_correlation example_now [rex_reading] [] None
     = Inl ''No matching data found for correlation analysis''"
    using empty by (cases "get_temperature_activity_correlation example_now [rex_reading] [] None") simp_all
  have "\<not> isl (get_temperature_activity_correlation example_now [rex_reading] [rex_activity 10 30] None)"
    using single
    by (simp add: rex_reading_def rex_activity_def example_now_def days_or_def
        timedelta_days_def ANALYSIS_WINDOWS_medium_term_def)
  then obtain r where r: "get_temperature_activity_correlation example_now [rex_reading]
      [rex_activity 10 30] None = Inr r"
    by (cases "get_temperature_activity_correlation example_now [rex_reading] [rex_activity 10 30] None") simp_all
  have "data_points r = 1"
    using single by (simp add: r rex_join)
  moreover from this have "temperature_activity_correlation r = None \<and> correlation_strength r = ''negligible''"
    using single by (simp add: r)
  ultimately show ?thesis using a r by simp
qed

subsection \<open>Empty data\<close>

lemma pet_averages_Nil: "pet_averages (daily_activity []) = []"
  by (simp add: pet_averages_def daily_activity_def groupby_def)




subsection \<open>Default windows\<close>

text \<open>
  C10. Called without \<open>days\<close>, \<open>get_noise_level_alerts\<close> uses the 7-day window: it counts
  the readings of the last 7 days above the alert threshold of 45 dB and divides that count
  by 7. Every other analysis method with a \<open>days\<close> argument defaults to 30 days.
\<close>

theorem noise_alerts_default_window:
  "get_noise_level_alerts now env_df None = get_noise_level_alerts now env_df (Some 7)
   \<and> alerts_per_day (get_noise_level_alerts now env_df None)
       = real (total_alerts (get_noise_level_alerts now env_df None)) / 7
   \<and> total_alerts (get_noise_level_alerts now env_df None)
       = length (filter (\<lambda>e. now - 7 * 86400 \<le> env_timestamp e \<and> 45 < env_noise_level_db e)
           env_df)
   \<and> get_avg_activity_time_per_pet now activities_df None
       = get_avg_activity_time_per_pet now activities_df (Some 30)
   \<and> get_feeding_frequency_analysis now activities_df None
       = get_feeding_frequency_analysis now activities_df (Some 30)
   \<and> get_weight_trend_analysis now activities_df None
       = get_weight_trend_analysis now activities_df (Some 30)
   \<and> get_temperature_humidity_averages now env_df None by_section_flag
       = get_temperature_humidity_averages now env_df (Some 30) by_section_flag
   \<and> get_temperature_activity_correlation now env_df activities_df None
       = get_temperature_activity_correlation now env_df activities_df (Some 30)
   \<and> get_grooming_cleaning_frequency now activities_df None
       = get_grooming_cleaning_frequency now activities_df (Some 30)
   \<and> get_staff_performance_analysis now staff_df activities_df None
       = get_staff_performance_analysis now staff_df activities_df (Some 30)
   \<and> get_alert_trends_analysis now activities_df None
       = get_alert_trends_analysis now activities_df (Some 30)"
proof -
  have short: "days_or None ANALYSIS_WINDOWS_short_term = 7"
    "days_or (Some 7) ANALYSIS_WINDOWS_short_term = 7"
    by (simp_all add: days_or_def ANALYSIS_WINDOWS_short_term_def)
  have medium: "days_or None ANALYSIS_WINDOWS_medium_term = 30"
    "days_or (Some 30) ANALYSIS_WINDOWS_medium_term = 30"
    by (simp_all add: days_or_def ANALYSIS_WINDOWS_medium_term_def)
  have noise: "get_noise_level_alerts now env_df None = get_noise_level_alerts now env_df (Some 7)"
    unfolding get_noise_level_alerts_def short ..
  have per_day: "alerts_per_day (get_noise_level_alerts now env_df None)
       = real (total_alerts (get_noise_level_alerts now env_df None)) / 7"
    unfolding get_noise_level_alerts_def short by (simp add: Let_def)
  have total: "total_alerts (get_noise_level_alerts now env_df None)
       = length (filter (\<lambda>e. now - 7 * 86400 \<le> env_timestamp e \<and> 45 < env_noise_level_db e)
           env_df)"
    unfolding get_noise_level_alerts_def short
    by (simp add: Let_def timedelta_days_def noise_alert_threshold_def filter_map comp_def
        case_prod_unfold conj_commute)
  have others: "get_avg_activity_time_per_pet now activities_df None
       = get_avg_activity_time_per_pet now activities_df (Some 30)"
    "get_feeding_frequency_analysis now activities_df None
       = get_feeding_frequency_analysis now activities_df (Some 30)"
    "get_weight_trend_analysis now activities_df None
       = get_weight_trend_analysis now activities_df (Some 30)"
    "get_temperature_humidity_averages now env_df None by_section_flag
       = get_temperature_humidity_averages now env_df (Some 30) by_section_flag"
    "get_temperature_activity_correlation now env_df activities_df None
       = get_temperature_activity_correlation now env_df activities_df (Some 30)"
    "get_grooming_cleaning_frequency now activities_df None
       = get_grooming_cleaning_frequency now activities_df (Some 30)"
    "get_staff_performance_analysis now staff_df activities_df None
       = get_staff_performance_analysis now staff_df activities_df (Some 30)"
    "get_alert_trends_analysis now activities_df None
       = get_alert_trends_analysis now activities_df (Some 30)"
    unfolding get_avg_activity_time_per_pet_def get_feeding_frequency_analysis_def
      get_weight_trend_analysis_def get_temperature_humidity_averages_def
      get_temperature_activity_correlation_def get_grooming_cleaning_frequency_def
      get_staff_performance_analysis_def get_alert_trends_analysis_def medium
    by (rule refl)+
  from noise per_day total others show ?thesis by blast
qed

subsection \<open>Dependence on the clock\<close>

lemma agg_max_in_set: "agg_max xs = Some m \<Longrightarrow> m \<in> set xs"
  by (auto simp: agg_max_def split: if_splits)

lemma days_since_cong:
  assumes "\<forall>t \<in> set ts. td_days (now1 - t) = td_days (now2 - t)"
  shows "map_option (\<lambda>l. td_days (now1 - l)) (agg_max ts)
       = map_option (\<lambda>l. td_days (now2 - l)) (agg_max ts)"
proof (cases "agg_max ts")
  case None
  then show ?thesis by simp
next
  case (Some m)
  then have "m \<in> set ts" by (rule agg_max_in_set)
  with assms have "td_days (now1 - m) = td_days (now2 - m)" by blast
  then show ?thesis by (simp add: Some)
qed

lemma pet_grooming_table_cong:
  assumes "\<forall>a \<in> set grooming_df. td_days (now1 - act_timestamp a) = td_days (now2 - act_timestamp a)"
  shows "pet_grooming_table now1 grooming_df = pet_grooming_table now2 grooming_df"
proof -
  have "map_option (\<lambda>l. td_days (now1 - l)) (agg_max (map act_timestamp rows))
       = map_option (\<lambda>l. td_days (now2 - l)) (agg_max (map act_timestamp rows))"
    if "(k, rows) \<in> set (groupby (\<lambda>a. (act_pet_id a, act_pet_name a)) grooming_df)" for k rows
  proof (rule days_since_cong)
    from that have "set rows \<subseteq> set grooming_df"
      by (auto simp: groupby_def)
    with assms show "\<forall>t \<in> set (map act_timestamp rows). td_days (now1 - t) = td_days (now2 - t)"
      by auto
  qed
  then show ?thesis
    unfolding pet_grooming_table_def Let_def
    by (intro map_cong refl) auto
qed

text \<open>
  C9 (as amended). An analysis call is a function of the configuration, the snapshot, the
  \<open>days\<close> argument and the instant \<open>now\<close> at which it runs: \<open>now\<close> fixes the cutoff of the
  window, and the grooming analysis also counts the days since the last grooming from it.
  Two invocations with the same snapshot and the same \<open>days\<close> return identical results
  when their instants put the same rows in the window and give every activity the same age
  in whole days.
\<close>

theorem same_window_same_result:
  assumes act_window:
      "\<forall>a \<in> set activities_df.
         (now1 - timedelta_days (days_or days ANALYSIS_WINDOWS_medium_term) \<le> act_timestamp a)
         = (now2 - timedelta_days (days_or days ANALYSIS_WINDOWS_medium_term) \<le> act_timestamp a)"
    and env_window:
      "\<forall>e \<in> set env_df.
         (now1 - timedelta_days (days_or days ANALYSIS_WINDOWS_medium_term) \<le> env_timestamp e)
         = (now2 - timedelta_days (days_or days ANALYSIS_WINDOWS_medium_term) \<le> env_timestamp e)"
    and noise_window:
      "\<forall>e \<in> set env_df.
         (now1 - timedelta_days (days_or days ANALYSIS_WINDOWS_short_term) \<le> env_timestamp e)
         = (now2 - timedelta_days (days_or days ANALYSIS_WINDOWS_short_term) \<le> env_timestamp e)"
    and staff_window:
      "\<forall>s \<in> set staff_df.
         (now1 - timedelta_days (days_or days ANALYSIS_WINDOWS_medium_term) \<le> stf_shift_start s)
         = (now2 - timedelta_days (days_or days ANALYSIS_WINDOWS_medium_term) \<le> stf_shift_start s)"
    and ages:
      "\<forall>a \<in> set activities_df.
         td_days (now1 - act_timestamp a) = td_days (now2 - act_timestamp a)"
  shows "get_avg_activity_time_per_pet now1 activities_df days
       = get_avg_activity_time_per_pet now2 activities_df days
   \<and> get_feeding_frequency_analysis now1 activities_df days
       = get_feeding_frequency_analysis now2 activities_df days
   \<and> get_weight_trend_analysis now1 activities_df days
       = get_weight_trend_analysis now2 activities_df days
   \<and> get_temperature_humidity_averages now1 env_df days by_section_flag
       = get_temperature_humidity_averages now2 env_df days by_section_flag
   \<and> get_noise_level_alerts now1 env_df days = get_noise_level_alerts now2 env_df days
   \<and> get_temperature_activity_correlation now1 env_df activities_df days
       = get_temperature_activity_correlation now2 env_df activities_df days
   \<and> get_grooming_cleaning_frequency now1 activities_df days
       = get_grooming_cleaning_frequency now2 activities_df days
   \<and> get_staff_performance_analysis now1 staff_df activities_df days
       = get_staff_performance_analysis now2 staff_df activities_df days
   \<and> get_alert_trends_analysis now1 activities_df days
       = get_alert_trends_analysis now2 activities_df days"
proof -
  define c1 c2 where "c1 = now1 - timedelta_days (days_or days ANALYSIS_WINDOWS_medium_term)"
    and "c2 = now2 - timedelta_days (days_or days ANALYSIS_WINDOWS_medium_term)"
  define n1 n2 where "n1 = now1 - timedelta_days (days_or days ANALYSIS_WINDOWS_short_term)"
    and "n2 = now2 - timedelta_days (days_or days ANALYSIS_WINDOWS_short_term)"
  have act: "filter (\<lambda>a. c1 \<le> act_timestamp a) activities_df
      = filter (\<lambda>a. c2 \<le> act_timestamp a) activities_df"
    using act_window unfolding c1_def c2_def by (intro filter_cong refl) blast
  have act_ty: "filter (\<lambda>a. act_activity_type a = ty \<and> c1 \<le> act_timestamp a) activities_df
      = filter (\<lambda>a. act_activity_type a = ty \<and> c2 \<le> act_timestamp a) activities_df" for ty
    using act_window unfolding c1_def c2_def by (intro filter_cong refl) blast
  have env: "filter (\<lambda>e. c1 \<le> env_timestamp e) env_df = filter (\<lambda>e. c2 \<le> env_timestamp e) env_df"
    using env_window unfolding c1_def c2_def by (intro filter_cong refl) blast
  have noise: "filter (\<lambda>e. n1 \<le> env_timestamp e) env_df = filter (\<lambda>e. n2 \<le> env_timestamp e) env_df"
    using noise_window unfolding n1_def n2_def by (intro filter_cong refl) blast
  have staff: "filter (\<lambda>s. c1 \<le> stf_shift_start s) staff_df
      = filter (\<lambda>s. c2 \<le> stf_shift_start s) staff_df"
    using staff_window unfolding c1_def c2_def by (intro filter_cong refl) blast
  have table: "pet_grooming_table now1
        (filter (\<lambda>a. act_activity_type a = ''grooming'' \<and> c2 \<le> act_timestamp a) activities_df)
      = pet_grooming_table now2
        (filter (\<lambda>a. act_activity_type a = ''grooming'' \<and> c2 \<le> act_timestamp a) activities_df)"
    using ages by (intro pet_grooming_table_cong) simp
  have 1: "get_avg_activity_time_per_pet now1 activities_df days
       = get_avg_activity_time_per_pet now2 activities_df days"
    unfolding get_avg_activity_time_per_pet_def Let_def
    by (simp only: act flip: c1_def c2_def)
  have 2: "get_feeding_frequency_analysis now1 activities_df days
       = get_feeding_frequency_analysis now2 activities_df days"
    unfolding get_feeding_frequency_analysis_def Let_def
    by (simp only: act_ty flip: c1_def c2_def)
  have 3: "get_weight_trend_analysis now1 activities_df days
       = get_weight_trend_analysis now2 activities_df days"
    unfolding get_weight_trend_analysis_def Let_def
    by (simp only: act_ty flip: c1_def c2_def)
  have 4: "get_temperature_humidity_averages now1 env_df days by_section_flag
       = get_temperature_humidity_averages now2 env_df days by_section_flag"
    unfolding get_temperature_humidity_averages_def Let_def
    by (simp only: env flip: c1_def c2_def)
  have 5: "get_noise_level_alerts now1 env_df days = get_noise_level_alerts now2 env_df days"
    unfolding get_noise_level_alerts_def Let_def
    by (simp only: noise flip: n1_def n2_def)
  have 6: "get_temperature_activity_correlation now1 env_df activities_df days
       = get_temperature_activity_correlation now2 env_df activities_df days"
    unfolding get_temperature_activity_correlation_def hourly_join_def Let_def
    by (simp only: env act flip: c1_def c2_def)
  have 7: "get_grooming_cleaning_frequency now1 activities_df days
       = get_grooming_cleaning_frequency now2 activities_df days"
    unfolding get_grooming_cleaning_frequency_def Let_def
    by (simp only: act_ty table flip: c1_def c2_def)
  have 8: "get_staff_performance_analysis now1 staff_df activities_df days
       = get_staff_performance_analysis now2 staff_df activities_df days"
    unfolding get_staff_performance_analysis_def Let_def
    by (simp only: staff act flip: c1_def c2_def)
  have 9: "get_alert_trends_analysis now1 activities_df days
       = get_alert_trends_analysis now2 activities_df days"
    unfolding get_alert_trends_analysis_def Let_def
    by (simp only: act flip: c1_def c2_def)
  from 1 2 3 4 5 6 7 8 9 show ?thesis by blast
qed

text \<open>
  C9 as stated fails: the same snapshot and the same \<open>days\<close> argument give Rex's row on day
  12 and an empty table a hundred days later.
\<close>

theorem result_depends_on_clock:
  "get_avg_activity_time_per_pet example_now rex_activities None
     \<noteq> get_avg_activity_time_per_pet (example_now + 100 * 86400) rex_activities None
   \<and> get_avg_activity_time_per_pet (example_now + 100 * 86400) rex_activities None = []"
proof -
  have "get_avg_activity_time_per_pet (example_now + 100 * 86400) rex_activities None = []"
    by (simp add: get_avg_activity_time_per_pet_def pet_averages_Nil sort_values_desc_def
        rex_activities_def rex_activity_def example_now_def days_or_def timedelta_days_def
        ANALYSIS_WINDOWS_medium_term_def Let_def)
  then show ?thesis by (simp add: rex_average)
qed

text \<open>
  Two invocations one minute apart on the example tables.
\<close>

theorem same_window_same_result_witness:
  "example_now \<noteq> example_now + 60
   \<and> get_avg_activity_time_per_pet example_now rex_activities None
       = get_avg_activity_time_per_pet (example_now + 60) rex_activities None
   \<and> get_temperature_humidity_averages example_now [rex_reading] None True
       = get_temperature_humidity_averages (example_now + 60) [rex_reading] None True
   \<and> get_noise_level_alerts example_now [rex_reading] None
       = get_noise_level_alerts (example_now + 60) [rex_reading] None
   \<and> get_grooming_cleaning_frequency example_now rex_activities None
       = get_grooming_cleaning_frequency (example_now + 60) rex_activities None
   \<and> get_staff_performance_analysis example_now (transform_staff_logs [example_shift])
         rex_activities None
       = get_staff_performance_analysis (example_now + 60) (transform_staff_logs [example_shift])
         rex_activities None"
proof -
  have act_window:
      "\<forall>a \<in> set rex_activities.
         (example_now - timedelta_days (days_or None ANALYSIS_WINDOWS_medium_term) \<le> act_timestamp a)
         = (example_now + 60 - timedelta_days (days_or None ANALYSIS_WINDOWS_medium_term)
              \<le> act_timestamp a)"
    by (simp add: rex_activities_def rex_activity_def example_now_def days_or_def
        timedelta_days_def ANALYSIS_WINDOWS_medium_term_def)
  have env_window:
      "\<forall>e \<in> set [rex_reading].
         (example_now - timedelta_days (days_or None ANALYSIS_WINDOWS_medium_term) \<le> env_timestamp e)
         = (example_now + 60 - timedelta_days (days_or None ANALYSIS_WINDOWS_medium_term)
              \<le> env_timestamp e)"
    by (simp add: rex_reading_def example_now_def days_or_def
        timedelta_days_def ANALYSIS_WINDOWS_medium_term_def)
  have noise_window:
      "\<forall>e \<in> set [rex_reading].
         (example_now - timedelta_days (days_or None ANALYSIS_WINDOWS_short_term) \<le> env_timestamp e)
         = (example_now + 60 - timedelta_days (days_or None ANALYSIS_WINDOWS_short_term)
              \<le> env_timestamp e)"
    by (simp add: rex_reading_def example_now_def days_or_def
        timedelta_days_def ANALYSIS_WINDOWS_short_term_def)
  have staff_window:
      "\<forall>s \<in> set (transform_staff_logs [example_shift]).
         (example_now - timedelta_days (days_or None ANALYSIS_WINDOWS_medium_term)
            \<le> stf_shift_start s)
         = (example_now + 60 - timedelta_days (days_or None ANALYSIS_WINDOWS_medium_term)
              \<le> stf_shift_start s)"
    by (simp add: transform_staff_logs_single transform_staff_row_def example_shift_def
        example_now_def days_or_def timedelta_days_def ANALYSIS_WINDOWS_medium_term_def Let_def)
  have ages:
      "\<forall>a \<in> set rex_activities.
         td_days (example_now - act_timestamp a) = td_days (example_now + 60 - act_timestamp a)"
    by (simp add: rex_activities_def rex_activity_def example_now_def td_days_def)
  from same_window_same_result [OF act_window env_window noise_window staff_window ages]
  show ?thesis by simp
qed

end
